theory Spec2Isabelle
  imports Main "HOL-Library.AList"
begin

section \<open>Python values, strings and exceptions\<close>

text \<open>
  The values that flow through \<^verbatim>\<open>Config.get\<close>: strings (what the environment and the
  repositories hold), and the defaults a caller may pass: \<^verbatim>\<open>None\<close>, booleans and integers.
  Text is modelled as a list of 8-bit characters (ASCII text); Python's \<^verbatim>\<open>str\<close> is Unicode.
  An omitted \<^verbatim>\<open>default\<close> or \<^verbatim>\<open>cast\<close> is the module's \<^verbatim>\<open>undefined\<close> instance, which the
  code recognises by \<^verbatim>\<open>isinstance(x, Undefined)\<close>: it is \<open>None\<close> of an option type here.
\<close>

datatype pyval = PStr string | PNone | PBool bool | PInt int

text \<open>
  The exceptions the code and the standard library raise, each with the arguments that
  identify it: \<^verbatim>\<open>UndefinedValueError\<close> with its message, \<^verbatim>\<open>ValueError\<close> with the text its
  message quotes, the parser's errors with their section and option names.
\<close>

datatype error =
    UndefinedValueError string
  | UnsupportedParser string
  | ValueError string
  | TypeError string
  | KeyError string
  | FileNotFoundError string
  | RecursionError
  | NoSectionError string
  | NoOptionError string string
  | DuplicateSectionError string
  | InterpolationSyntaxError string string
  | InterpolationMissingOptionError string string string
  | InterpolationDepthError string string
  | ParsingError string

definition digit_char :: "nat \<Rightarrow> char" where
  "digit_char d = ''0123456789'' ! d"

function digits :: "nat \<Rightarrow> string" where
  "digits n = (if n < 10 then [digit_char n] else digits (n div 10) @ [digit_char (n mod 10)])"
  by pat_completeness auto
termination
  by (relation "measure id") auto

text \<open>Python's \<^verbatim>\<open>str(value)\<close> on the modelled values.\<close>

fun str :: "pyval \<Rightarrow> string" where
  "str (PStr s) = s"
| "str PNone = ''None''"
| "str (PBool b) = (if b then ''True'' else ''False'')"
| "str (PInt i) = (if i < 0 then CHR ''-'' # digits (nat (- i)) else digits (nat i))"

definition lower_char :: "char \<Rightarrow> char" where
  "lower_char c =
     (case map_of (zip ''ABCDEFGHIJKLMNOPQRSTUVWXYZ'' ''abcdefghijklmnopqrstuvwxyz'') c of
        Some d \<Rightarrow> d
      | None \<Rightarrow> c)"

text \<open>\<^verbatim>\<open>s.lower()\<close> on ASCII text.\<close>

definition lower :: "string \<Rightarrow> string" where
  "lower s = map lower_char s"

text \<open>
  \<^verbatim>\<open>s.strip(chars)\<close>: every leading and every trailing character that belongs to \<open>chars\<close>
  is removed. \<^verbatim>\<open>s.strip()\<close> removes the characters for which \<^verbatim>\<open>isspace()\<close> holds; in
  ASCII these are the codes 9 to 13, 28 to 31 and 32.
\<close>

definition strip_chars :: "string \<Rightarrow> string \<Rightarrow> string" where
  "strip_chars chars s =
     rev (dropWhile (\<lambda>c. c \<in> set chars) (rev (dropWhile (\<lambda>c. c \<in> set chars) s)))"

definition isspace_chars :: string where
  "isspace_chars =
     [CHR 0x09, CHR 0x0A, CHR 0x0B, CHR 0x0C, CHR 0x0D,
      CHR 0x1C, CHR 0x1D, CHR 0x1E, CHR 0x1F, CHR 0x20]"

definition strip :: "string \<Rightarrow> string" where
  "strip s = strip_chars isspace_chars s"

section \<open>The process: environment, files, class attributes\<close>

text \<open>
  What the code reads from outside itself: \<^verbatim>\<open>os.environ\<close>, the regular files (path to
  text, keyed by the path string the code builds), the working directory, and the class
  attribute \<^verbatim>\<open>RepositoryIni.SECTION\<close>, which \<^verbatim>\<open>CustomConfig\<close> assigns to.
\<close>

record world =
  environ :: "string \<rightharpoonup> string"
  files :: "string \<rightharpoonup> string"
  cwd :: string
  RepositoryIni_SECTION :: string

text \<open>The class body's \<^verbatim>\<open>SECTION = 'settings'\<close>: the attribute's value when the module is loaded.\<close>

definition RepositoryIni_SECTION_declared :: string where
  "RepositoryIni_SECTION_declared = ''settings''"

section \<open>The standard library's ConfigParser, as far as the repositories use it\<close>

text \<open>
  \<^verbatim>\<open>configparser.ConfigParser()\<close> of Python 3 with its default settings: the options of
  the \<^verbatim>\<open>DEFAULT\<close> section and the sections, each an insertion-ordered dictionary; option
  names pass through \<^verbatim>\<open>optionxform\<close> (lower case); values are read and written through
  \<^verbatim>\<open>BasicInterpolation\<close>.
\<close>

record ConfigParser =
  cp_defaults :: "(string \<times> string) list"
  cp_sections :: "(string \<times> (string \<times> string) list) list"

definition default_section :: string where
  "default_section = ''DEFAULT''"

definition MAX_INTERPOLATION_DEPTH :: nat where
  "MAX_INTERPOLATION_DEPTH = 10"

definition optionxform :: "string \<Rightarrow> string" where
  "optionxform optionstr = lower optionstr"

definition sections :: "ConfigParser \<Rightarrow> string list" where
  "sections p = map fst (cp_sections p)"

definition add_section :: "ConfigParser \<Rightarrow> string \<Rightarrow> error + ConfigParser" where
  "add_section p section =
     (if section = default_section then Inl (ValueError section)
      else if section \<in> set (sections p) then Inl (DuplicateSectionError section)
      else Inr (p\<lparr>cp_sections := cp_sections p @ [(section, [])]\<rparr>))"

definition has_option :: "ConfigParser \<Rightarrow> string \<Rightarrow> string \<Rightarrow> bool" where
  "has_option p section option =
     (if section = [] \<or> section = default_section
      then map_of (cp_defaults p) (optionxform option) \<noteq> None
      else (case map_of (cp_sections p) section of
              None \<Rightarrow> False
            | Some d \<Rightarrow> map_of d (optionxform option) \<noteq> None
                       \<or> map_of (cp_defaults p) (optionxform option) \<noteq> None))"

text \<open>
  The regular expression \<^verbatim>\<open>%\(([^)]+)\)s\<close> matched at the start of a string: the name in
  the parentheses and the text after the match.
\<close>

definition keycre_match :: "string \<Rightarrow> (string \<times> string) option" where
  "keycre_match s =
     (if take 2 s = ''%(''
      then (let name = takeWhile (\<lambda>c. c \<noteq> CHR '')'') (drop 2 s);
                r = dropWhile (\<lambda>c. c \<noteq> CHR '')'') (drop 2 s)
            in if name \<noteq> [] \<and> take 2 r = '')s'' then Some (name, drop 2 r) else None)
      else None)"

lemma keycre_match_shorter: "keycre_match s = Some (name, r) \<Longrightarrow> length r < length s"
proof -
  assume a: "keycre_match s = Some (name, r)"
  have "length (dropWhile (\<lambda>c. c \<noteq> CHR '')'') (drop 2 s)) \<le> length (drop 2 s)"
    by (rule length_dropWhile_le)
  moreover from a have "take 2 s = ''%(''"
    by (simp add: keycre_match_def split: if_splits)
  then have "2 \<le> length s"
    by (cases s; cases "tl s") auto
  moreover from a have "r = drop 2 (dropWhile (\<lambda>c. c \<noteq> CHR '')'') (drop 2 s))"
    by (auto simp: keycre_match_def Let_def split: if_splits)
  ultimately show ?thesis by simp
qed

text \<open>\<^verbatim>\<open>value.replace('%%', '')\<close> and \<^verbatim>\<open>_KEYCRE.sub('', tmp_value)\<close>.\<close>

fun remove_percent_pairs :: "string \<Rightarrow> string" where
  "remove_percent_pairs [] = []"
| "remove_percent_pairs [c] = [c]"
| "remove_percent_pairs (c # d # s) =
     (if c = CHR ''%'' \<and> d = CHR ''%'' then remove_percent_pairs s
      else c # remove_percent_pairs (d # s))"

function keycre_sub :: "string \<Rightarrow> string" where
  "keycre_sub [] = []"
| "keycre_sub (c # s) =
     (case keycre_match (c # s) of
        Some (name, r) \<Rightarrow> keycre_sub r
      | None \<Rightarrow> c # keycre_sub s)"
  by pat_completeness auto
termination
  by (relation "measure length") (auto dest: keycre_match_shorter)

definition before_set :: "string \<Rightarrow> error + string" where
  "before_set v =
     (let tmp_value = keycre_sub (remove_percent_pairs v)
      in if CHR ''%'' \<in> set tmp_value then Inl (ValueError v) else Inr v)"

text \<open>
  \<^verbatim>\<open>BasicInterpolation._interpolate_some\<close>: \<open>interpolate_some\<close> is the function's entry (the
  depth check), \<open>interpolate_loop\<close> its \<^verbatim>\<open>while rest\<close> loop; the result is the text the call
  appends to \<^verbatim>\<open>accum\<close>. \<open>m\<close> is the chained lookup (section, then \<^verbatim>\<open>DEFAULT\<close>).
\<close>

function interpolate_some :: "(string \<rightharpoonup> string) \<Rightarrow> string \<Rightarrow> string \<Rightarrow> nat \<Rightarrow> string \<Rightarrow> error + string"
  and interpolate_loop :: "(string \<rightharpoonup> string) \<Rightarrow> string \<Rightarrow> string \<Rightarrow> nat \<Rightarrow> string \<Rightarrow> error + string"
where
  "interpolate_some m option section depth rest =
     (if depth > MAX_INTERPOLATION_DEPTH then Inl (InterpolationDepthError option section)
      else interpolate_loop m option section depth rest)"
| "interpolate_loop m option section depth rest =
     (if rest = [] then Inr []
      else if CHR ''%'' \<notin> set rest then Inr rest
      else
        (let pre = takeWhile (\<lambda>c. c \<noteq> CHR ''%'') rest;
             rest1 = dropWhile (\<lambda>c. c \<noteq> CHR ''%'') rest;
             c = take 1 (drop 1 rest1)
         in if c = ''%'' then
              (case interpolate_loop m option section depth (drop 2 rest1) of
                 Inl e \<Rightarrow> Inl e
               | Inr out \<Rightarrow> Inr (pre @ ''%'' @ out))
            else if c = ''('' then
              (case keycre_match rest1 of
                 None \<Rightarrow> Inl (InterpolationSyntaxError option section)
               | Some (name, rest2) \<Rightarrow>
                   (case m (optionxform name) of
                      None \<Rightarrow> Inl (InterpolationMissingOptionError option section (optionxform name))
                    | Some v \<Rightarrow>
                        (case (if CHR ''%'' \<in> set v
                               then interpolate_some m option section (depth + 1) v
                               else Inr v) of
                           Inl e \<Rightarrow> Inl e
                         | Inr mid \<Rightarrow>
                             (case interpolate_loop m option section depth rest2 of
                                Inl e \<Rightarrow> Inl e
                              | Inr out \<Rightarrow> Inr (pre @ mid @ out)))))
            else Inl (InterpolationSyntaxError option section)))"
  by pat_completeness auto
termination
proof (relation "measures
    [\<lambda>x. case x of
           Inl (m, option, section, depth, rest) \<Rightarrow>
             (if depth > MAX_INTERPOLATION_DEPTH then 0 else MAX_INTERPOLATION_DEPTH + 2 - depth)
         | Inr (m, option, section, depth, rest) \<Rightarrow>
             (if depth > MAX_INTERPOLATION_DEPTH then 1 else MAX_INTERPOLATION_DEPTH + 2 - depth),
     \<lambda>x. case x of
           Inl (m, option, section, depth, rest) \<Rightarrow> length rest + 1
         | Inr (m, option, section, depth, rest) \<Rightarrow> length rest]", goal_cases)
  case 1
  then show ?case by simp
next
  case (2 m opt sec depth rest)
  then show ?case by simp
next
  case (3 m opt sec depth rest pre rest1 c)
  have "length (dropWhile (\<lambda>c. c \<noteq> CHR ''%'') rest) \<le> length rest"
    by (rule length_dropWhile_le)
  moreover from 3 have "dropWhile (\<lambda>c. c \<noteq> CHR ''%'') rest \<noteq> []"
    by simp
  ultimately show ?case using 3 by (cases "dropWhile (\<lambda>c. c \<noteq> CHR ''%'') rest") auto
next
  case (4 m opt sec depth rest pre rest1 c x2 name rest2 v)
  then show ?case by (auto simp: MAX_INTERPOLATION_DEPTH_def)
next
  case (5 m opt sec depth rest pre rest1 c x2 name rest2 v mid)
  have "length (dropWhile (\<lambda>c. c \<noteq> CHR ''%'') rest) \<le> length rest"
    by (rule length_dropWhile_le)
  moreover from 5 have "length rest2 < length rest1"
    by (auto dest: keycre_match_shorter)
  ultimately show ?case using 5 by simp
qed

definition before_get :: "(string \<rightharpoonup> string) \<Rightarrow> string \<Rightarrow> string \<Rightarrow> string \<Rightarrow> error + string" where
  "before_get m section option v = interpolate_some m option section 1 v"

definition unify_values :: "ConfigParser \<Rightarrow> string \<Rightarrow> error + (string \<rightharpoonup> string)" where
  "unify_values p section =
     (case map_of (cp_sections p) section of
        Some sectiondict \<Rightarrow> Inr (map_of (cp_defaults p) ++ map_of sectiondict)
      | None \<Rightarrow>
          if section \<noteq> default_section then Inl (NoSectionError section)
          else Inr (map_of (cp_defaults p)))"

definition ConfigParser_get :: "ConfigParser \<Rightarrow> string \<Rightarrow> string \<Rightarrow> error + string" where
  "ConfigParser_get p section option =
     (case unify_values p section of
        Inl e \<Rightarrow> Inl e
      | Inr d \<Rightarrow>
          (case d (optionxform option) of
             None \<Rightarrow> Inl (NoOptionError (optionxform option) section)
           | Some v \<Rightarrow> before_get d section (optionxform option) v))"

definition ConfigParser_set :: "ConfigParser \<Rightarrow> string \<Rightarrow> string \<Rightarrow> string \<Rightarrow> error + ConfigParser" where
  "ConfigParser_set p section option v =
     (case (if v \<noteq> [] then before_set v else Inr v) of
        Inl e \<Rightarrow> Inl e
      | Inr v' \<Rightarrow>
          if section = [] \<or> section = default_section
          then Inr (p\<lparr>cp_defaults := AList.update (optionxform option) v' (cp_defaults p)\<rparr>)
          else (case map_of (cp_sections p) section of
                  None \<Rightarrow> Inl (NoSectionError section)
                | Some sectdict \<Rightarrow>
                    Inr (p\<lparr>cp_sections :=
                           AList.update section (AList.update (optionxform option) v' sectdict)
                             (cp_sections p)\<rparr>)))"

definition remove_option :: "ConfigParser \<Rightarrow> string \<Rightarrow> string \<Rightarrow> error + ConfigParser" where
  "remove_option p section option =
     (if section = [] \<or> section = default_section
      then Inr (p\<lparr>cp_defaults := AList.delete (optionxform option) (cp_defaults p)\<rparr>)
      else (case map_of (cp_sections p) section of
              None \<Rightarrow> Inl (NoSectionError section)
            | Some sectdict \<Rightarrow>
                Inr (p\<lparr>cp_sections :=
                       AList.update section (AList.delete (optionxform option) sectdict)
                         (cp_sections p)\<rparr>)))"

definition remove_section :: "ConfigParser \<Rightarrow> string \<Rightarrow> ConfigParser" where
  "remove_section p section = p\<lparr>cp_sections := AList.delete section (cp_sections p)\<rparr>"

fun replace_newlines :: "string \<Rightarrow> string" where
  "replace_newlines [] = []"
| "replace_newlines (c # s) =
     (if c = CHR 0x0A then CHR 0x0A # CHR 0x09 # replace_newlines s else c # replace_newlines s)"

definition write_section :: "string \<Rightarrow> (string \<times> string) list \<Rightarrow> string" where
  "write_section section_name section_items =
     ''['' @ section_name @ '']'' @ [CHR 0x0A]
     @ concat (map (\<lambda>(key, v). key @ '' = '' @ replace_newlines v @ [CHR 0x0A]) section_items)
     @ [CHR 0x0A]"

definition ConfigParser_write :: "ConfigParser \<Rightarrow> string" where
  "ConfigParser_write p =
     (if cp_defaults p \<noteq> [] then write_section default_section (cp_defaults p) else [])
     @ concat (map (\<lambda>(section, its). write_section section its) (cp_sections p))"


section \<open>Repositories\<close>

text \<open>
  The four repository classes. \<^verbatim>\<open>RepositoryIni\<close> holds its parser and reads \<^verbatim>\<open>SECTION\<close>
  from the class; \<^verbatim>\<open>WritableRepositoryIni\<close> holds \<^verbatim>\<open>SECTION\<close>, \<^verbatim>\<open>source\<close> and the parser
  as instance attributes; \<^verbatim>\<open>RepositoryEnv\<close> holds its \<^verbatim>\<open>data\<close> dictionary.
\<close>

datatype repository =
    RepositoryEmpty
  | RepositoryIni ConfigParser
  | WritableRepositoryIni string string ConfigParser
  | RepositoryEnv "string \<rightharpoonup> string"

text \<open>\<^verbatim>\<open>key in repository\<close>: the \<^verbatim>\<open>__contains__\<close> of the object's class.\<close>

fun repository_contains :: "world \<Rightarrow> repository \<Rightarrow> string \<Rightarrow> bool" where
  "repository_contains w RepositoryEmpty key = False"
| "repository_contains w (RepositoryIni parser) key =
     (environ w key \<noteq> None \<or> has_option parser (RepositoryIni_SECTION w) key)"
| "repository_contains w (WritableRepositoryIni SECTION source parser) key =
     has_option parser SECTION key"
| "repository_contains w (RepositoryEnv data) key =
     (environ w key \<noteq> None \<or> data key \<noteq> None)"

text \<open>\<^verbatim>\<open>repository[key]\<close>: the \<^verbatim>\<open>__getitem__\<close> of the object's class.\<close>

fun repository_getitem :: "world \<Rightarrow> repository \<Rightarrow> string \<Rightarrow> error + pyval" where
  "repository_getitem w RepositoryEmpty key = Inr PNone"
| "repository_getitem w (RepositoryIni parser) key =
     map_sum id PStr (ConfigParser_get parser (RepositoryIni_SECTION w) key)"
| "repository_getitem w (WritableRepositoryIni SECTION source parser) key =
     map_sum id PStr (ConfigParser_get parser SECTION key)"
| "repository_getitem w (RepositoryEnv data) key =
     (case data key of None \<Rightarrow> Inl (KeyError key) | Some v \<Rightarrow> Inr (PStr v))"

text \<open>
  \<^verbatim>\<open>RepositoryIni.__init__\<close>. \<open>read_file\<close> stands for the standard library's
  \<^verbatim>\<open>ConfigParser.read_file\<close> on a fresh parser: from the file's text to the parser it
  leaves, or the error it raises. The encoding is not modelled.
\<close>

definition RepositoryIni_init ::
  "(string \<Rightarrow> error + ConfigParser) \<Rightarrow> world \<Rightarrow> string \<Rightarrow> error + ConfigParser" where
  "RepositoryIni_init read_file w source =
     (case files w source of
        None \<Rightarrow> Inl (FileNotFoundError source)
      | Some text \<Rightarrow> read_file text)"

text \<open>\<^verbatim>\<open>WritableRepositoryIni._save\<close>: the file is rewritten from the parser.\<close>

definition save :: "world \<Rightarrow> string \<Rightarrow> ConfigParser \<Rightarrow> world" where
  "save w source parser = w\<lparr>files := (files w)(source \<mapsto> ConfigParser_write parser)\<rparr>"

text \<open>
  \<^verbatim>\<open>WritableRepositoryIni.__init__(source, section='default', create_section=True)\<close>.
  An argument the caller leaves out is \<open>None\<close> and takes the default of the signature.
\<close>

definition WritableRepositoryIni_init ::
  "(string \<Rightarrow> error + ConfigParser) \<Rightarrow> world \<Rightarrow> string \<Rightarrow> pyval option \<Rightarrow> bool option
     \<Rightarrow> error + (repository \<times> world)" where
  "WritableRepositoryIni_init read_file w source section create_section =
     (let SECTION = str (case section of None \<Rightarrow> PStr ''default'' | Some s \<Rightarrow> s);
          create = (case create_section of None \<Rightarrow> True | Some b \<Rightarrow> b);
          w1 = (if files w source = None then w\<lparr>files := (files w)(source \<mapsto> [])\<rparr> else w)
      in case RepositoryIni_init read_file w1 source of
           Inl e \<Rightarrow> Inl e
         | Inr parser \<Rightarrow>
             if create \<and> SECTION \<notin> set (sections parser)
             then (case add_section parser SECTION of
                     Inl e \<Rightarrow> Inl e
                   | Inr parser' \<Rightarrow>
                       Inr (WritableRepositoryIni SECTION source parser', save w1 source parser'))
             else Inr (WritableRepositoryIni SECTION source parser, w1))"

text \<open>
  \<^verbatim>\<open>repository[key] = value\<close> and \<^verbatim>\<open>del repository[key]\<close>. Only \<^verbatim>\<open>WritableRepositoryIni\<close>
  defines them; on the other classes Python raises \<^verbatim>\<open>TypeError\<close>.
\<close>

fun repository_setitem :: "world \<Rightarrow> repository \<Rightarrow> string \<Rightarrow> pyval \<Rightarrow> error + (repository \<times> world)" where
  "repository_setitem w (WritableRepositoryIni SECTION source parser) key v =
     (case ConfigParser_set parser SECTION key (str v) of
        Inl e \<Rightarrow> Inl e
      | Inr parser' \<Rightarrow> Inr (WritableRepositoryIni SECTION source parser', save w source parser'))"
| "repository_setitem w r key v = Inl (TypeError ''object does not support item assignment'')"

fun repository_delitem :: "world \<Rightarrow> repository \<Rightarrow> string \<Rightarrow> error + (repository \<times> world)" where
  "repository_delitem w (WritableRepositoryIni SECTION source parser) key =
     (case remove_option parser SECTION key of
        Inl e \<Rightarrow> Inl e
      | Inr parser' \<Rightarrow> Inr (WritableRepositoryIni SECTION source parser', save w source parser'))"
| "repository_delitem w r key = Inl (TypeError ''object does not support item deletion'')"

section \<open>Config and WritableConfig\<close>

record Config =
  repository :: repository

datatype cast = Bool_type | Callable "pyval \<Rightarrow> error + pyval"

definition strtobool :: "string \<Rightarrow> error + nat" where
  "strtobool val =
     (let val = lower val
      in if val \<in> set [''y'', ''yes'', ''t'', ''true'', ''on'', ''1''] then Inr 1
         else if val \<in> set [''n'', ''no'', ''f'', ''false'', ''off'', ''0''] then Inr 0
         else Inl (ValueError val))"

definition cast_boolean :: "pyval \<Rightarrow> error + pyval" where
  "cast_boolean v =
     (let v = str v
      in if v = [] then Inr (PBool (v \<noteq> []))
         else map_sum id (\<lambda>n. PBool (n \<noteq> 0)) (strtobool v))"

definition cast_do_nothing :: "pyval \<Rightarrow> error + pyval" where
  "cast_do_nothing v = Inr v"

text \<open>Lines 75 to 80 of \<^verbatim>\<open>Config.get\<close>: the cast is chosen and applied.\<close>

definition apply_cast :: "cast option \<Rightarrow> pyval \<Rightarrow> error + pyval" where
  "apply_cast cast v =
     (case cast of
        None \<Rightarrow> cast_do_nothing v
      | Some Bool_type \<Rightarrow> cast_boolean v
      | Some (Callable f) \<Rightarrow> f v)"

definition undefined_message :: "string \<Rightarrow> string" where
  "undefined_message option = option @ '' not found. Declare it as envvar or define a default value.''"

definition Config_get :: "world \<Rightarrow> Config \<Rightarrow> string \<Rightarrow> pyval option \<Rightarrow> cast option \<Rightarrow> error + pyval" where
  "Config_get w self option default_value cast =
     (case (case environ w option of
              Some v \<Rightarrow> Inr (PStr v)
            | None \<Rightarrow>
                if repository_contains w (repository self) option
                then repository_getitem w (repository self) option
                else (case default_value of
                        None \<Rightarrow> Inl (UndefinedValueError (undefined_message option))
                      | Some d \<Rightarrow> Inr d)) of
        Inl e \<Rightarrow> Inl e
      | Inr v \<Rightarrow> apply_cast cast v)"

definition Config_call :: "world \<Rightarrow> Config \<Rightarrow> string \<Rightarrow> pyval option \<Rightarrow> cast option \<Rightarrow> error + pyval" where
  "Config_call w self option default_value cast = Config_get w self option default_value cast"

text \<open>
  \<^verbatim>\<open>WritableConfig(*args, **kwargs)\<close>: one positional argument that is a
  \<^verbatim>\<open>WritableRepositoryIni\<close> is kept; anything else is handed to that class's constructor
  (which fails with \<^verbatim>\<open>TypeError\<close> on a repository object of another class as \<^verbatim>\<open>source\<close>).
\<close>

datatype writable_args =
    From_repository repository
  | From_arguments string "pyval option" "bool option"

fun WritableConfig_init ::
  "(string \<Rightarrow> error + ConfigParser) \<Rightarrow> world \<Rightarrow> writable_args \<Rightarrow> error + (Config \<times> world)" where
  "WritableConfig_init read_file w (From_repository (WritableRepositoryIni SECTION source parser)) =
     Inr (\<lparr>repository = WritableRepositoryIni SECTION source parser\<rparr>, w)"
| "WritableConfig_init read_file w (From_repository r) =
     Inl (TypeError ''expected str, bytes or os.PathLike object'')"
| "WritableConfig_init read_file w (From_arguments source section create_section) =
     (case WritableRepositoryIni_init read_file w source section create_section of
        Inl e \<Rightarrow> Inl e
      | Inr (r, w') \<Rightarrow> Inr (\<lparr>repository = r\<rparr>, w'))"

definition WritableConfig_get :: "world \<Rightarrow> Config \<Rightarrow> string \<Rightarrow> pyval option \<Rightarrow> cast option \<Rightarrow> error + pyval" where
  "WritableConfig_get w self option default_value cast =
     (case (if repository_contains w (repository self) option
            then repository_getitem w (repository self) option
            else (case default_value of
                    None \<Rightarrow> Inl (UndefinedValueError (undefined_message option))
                  | Some d \<Rightarrow> Inr d)) of
        Inl e \<Rightarrow> Inl e
      | Inr v \<Rightarrow> apply_cast cast v)"

definition WritableConfig_getitem :: "world \<Rightarrow> Config \<Rightarrow> string \<Rightarrow> error + pyval" where
  "WritableConfig_getitem w self key = WritableConfig_get w self key None None"

definition WritableConfig_contains :: "world \<Rightarrow> Config \<Rightarrow> string \<Rightarrow> bool" where
  "WritableConfig_contains w self key = repository_contains w (repository self) key"

definition WritableConfig_setitem :: "world \<Rightarrow> Config \<Rightarrow> string \<Rightarrow> pyval \<Rightarrow> error + (Config \<times> world)" where
  "WritableConfig_setitem w self key v =
     (case repository_setitem w (repository self) key v of
        Inl e \<Rightarrow> Inl e
      | Inr (r, w') \<Rightarrow> Inr (self\<lparr>repository := r\<rparr>, w'))"

definition WritableConfig_delitem :: "world \<Rightarrow> Config \<Rightarrow> string \<Rightarrow> error + (Config \<times> world)" where
  "WritableConfig_delitem w self key =
     (case repository_delitem w (repository self) key of
        Inl e \<Rightarrow> Inl e
      | Inr (r, w') \<Rightarrow> Inr (self\<lparr>repository := r\<rparr>, w'))"

section \<open>RepositoryEnv\<close>

definition single_quote :: char where
  "single_quote = CHR 0x27"

definition double_quote :: char where
  "double_quote = CHR 0x22"

text \<open>
  Iterating over a file opened in text mode: universal newlines (\<^verbatim>\<open>\r\n\<close> and \<^verbatim>\<open>\r\<close> are
  read as \<^verbatim>\<open>\n\<close>), and each line keeps its newline.
\<close>

fun universal_newlines :: "string \<Rightarrow> string" where
  "universal_newlines [] = []"
| "universal_newlines [c] = (if c = CHR 0x0D then [CHR 0x0A] else [c])"
| "universal_newlines (c # d # s) =
     (if c = CHR 0x0D \<and> d = CHR 0x0A then CHR 0x0A # universal_newlines s
      else if c = CHR 0x0D then CHR 0x0A # universal_newlines (d # s)
      else c # universal_newlines (d # s))"

fun readlines_from :: "string \<Rightarrow> string \<Rightarrow> string list" where
  "readlines_from cur [] = (if cur = [] then [] else [cur])"
| "readlines_from cur (c # s) =
     (if c = CHR 0x0A then (cur @ [c]) # readlines_from [] s else readlines_from (cur @ [c]) s)"

definition readlines :: "string \<Rightarrow> string list" where
  "readlines text = readlines_from [] (universal_newlines text)"

text \<open>The body of the loop of \<^verbatim>\<open>RepositoryEnv.__init__\<close>: one line, the dictionary before and after.\<close>

definition RepositoryEnv_line :: "(string \<rightharpoonup> string) \<Rightarrow> string \<Rightarrow> (string \<rightharpoonup> string)" where
  "RepositoryEnv_line data line0 =
     (let line = strip line0
      in if line = [] \<or> take 1 line = ''#'' \<or> CHR ''='' \<notin> set line then data
         else
           (let k = strip (takeWhile (\<lambda>c. c \<noteq> CHR ''='') line);
                v = strip (drop 1 (dropWhile (\<lambda>c. c \<noteq> CHR ''='') line));
                v' = (if length v \<ge> 2
                         \<and> ((hd v = single_quote \<and> last v = single_quote)
                            \<or> (hd v = double_quote \<and> last v = double_quote))
                      then strip_chars [single_quote, double_quote] v
                      else v)
            in data(k \<mapsto> v')))"

definition RepositoryEnv_lines :: "string list \<Rightarrow> (string \<rightharpoonup> string)" where
  "RepositoryEnv_lines ls = fold (\<lambda>line data. RepositoryEnv_line data line) ls Map.empty"

definition RepositoryEnv_init :: "world \<Rightarrow> string \<Rightarrow> error + repository" where
  "RepositoryEnv_init w source =
     (case files w source of
        None \<Rightarrow> Inl (FileNotFoundError source)
      | Some text \<Rightarrow> Inr (RepositoryEnv (RepositoryEnv_lines (readlines text))))"

section \<open>Paths (posixpath)\<close>












section \<open>AutoConfig and CustomConfig\<close>

datatype repository_class = RepositoryEmpty_class | RepositoryIni_class | RepositoryEnv_class

record AutoConfig =
  SUPPORTED :: "(string \<times> repository_class) list"
  search_path :: "string option"
  config :: "Config option"



text \<open>
  \<^verbatim>\<open>CustomConfig.__init__\<close>. The repository class is one of the three classes here, so the
  check against \<^verbatim>\<open>[RepositoryEnv, RepositoryIni]\<close> rejects \<^verbatim>\<open>RepositoryEmpty\<close>. A section
  name that is given is assigned to the class attribute \<^verbatim>\<open>RepositoryIni.SECTION\<close>.
\<close>

definition CustomConfig_init ::
  "world \<Rightarrow> string \<Rightarrow> repository_class \<Rightarrow> string option \<Rightarrow> string option \<Rightarrow> error + (AutoConfig \<times> world)" where
  "CustomConfig_init w config_filename cls path section =
     (if cls \<noteq> RepositoryEnv_class \<and> cls \<noteq> RepositoryIni_class
      then Inl (UnsupportedParser ''Unsupported Config Parser, should be : RepositoryEnv or RepositoryIni'')
      else Inr (\<lparr>SUPPORTED = [(config_filename, cls)], search_path = path, config = None\<rparr>,
                (case section of
                   Some s \<Rightarrow> if s \<noteq> [] \<and> cls = RepositoryIni_class
                             then w\<lparr>RepositoryIni_SECTION := s\<rparr> else w
                 | None \<Rightarrow> w)))"





section \<open>The standard library's shlex, as Csv sets it up\<close>

text \<open>
  \<^verbatim>\<open>shlex(value, posix=True)\<close> with \<^verbatim>\<open>whitespace\<close> replaced by the delimiter and
  \<^verbatim>\<open>whitespace_split = True\<close>; the other settings are the ones of the constructor:
  commenters \<^verbatim>\<open>#\<close>, both quotes, escape \<^verbatim>\<open>\\<close>, escaped quotes \<^verbatim>\<open>"\<close>, no punctuation
  characters. The lexer's \<^verbatim>\<open>state\<close> is a blank, \<^verbatim>\<open>'a'\<close>, the open quote, the escape
  character, or \<^verbatim>\<open>None\<close> after the end of the input.
\<close>

datatype lex_state = State_space | State_word | State_quote char | State_escape char | State_None

definition commenters :: string where
  "commenters = ''#''"

definition quotes :: string where
  "quotes = [single_quote, double_quote]"

definition escape :: string where
  "escape = [CHR 0x5C]"

definition escapedquotes :: string where
  "escapedquotes = [double_quote]"

text \<open>
  The ASCII word characters. (In posix mode the lexer adds accented Latin-1 letters;
  with \<^verbatim>\<open>whitespace_split\<close> a character that is no word character starts or extends a
  word all the same, unless it is a quote.)
\<close>

definition wordchars :: string where
  "wordchars = ''abcdfeghijklmnopqrstuvwxyzABCDEFGHIJKLMNOPQRSTUVWXYZ0123456789_''"

text \<open>The input left after \<^verbatim>\<open>instream.readline()\<close>.\<close>

definition readline_rest :: "string \<Rightarrow> string" where
  "readline_rest s = drop 1 (dropWhile (\<lambda>c. c \<noteq> CHR 0x0A) s)"

lemma length_readline_rest: "length (readline_rest s) \<le> length s"
proof -
  have "length (dropWhile (\<lambda>c. c \<noteq> CHR 0x0A) s) \<le> length s"
    by (rule length_dropWhile_le)
  then show ?thesis by (simp add: readline_rest_def)
qed

text \<open>
  The \<^verbatim>\<open>while True\<close> loop of \<^verbatim>\<open>shlex.read_token\<close>, one character of the input per
  round. Arguments: the delimiter characters, \<^verbatim>\<open>self.state\<close>, \<^verbatim>\<open>self.token\<close>, \<^verbatim>\<open>quoted\<close>,
  \<^verbatim>\<open>escapedstate\<close> and the unread input. At a \<^verbatim>\<open>break\<close> it returns the token, \<^verbatim>\<open>quoted\<close>,
  the state and the unread input.
\<close>

function read_token_loop ::
  "string \<Rightarrow> lex_state \<Rightarrow> string \<Rightarrow> bool \<Rightarrow> lex_state \<Rightarrow> string
     \<Rightarrow> error + (string \<times> bool \<times> lex_state \<times> string)" where
  "read_token_loop ws State_None token quoted esc input = Inr ([], quoted, State_None, drop 1 input)"
| "read_token_loop ws State_space token quoted esc [] = Inr (token, quoted, State_None, [])"
| "read_token_loop ws State_space token quoted esc (c # rest) =
     (if c \<in> set ws then
        (if token \<noteq> [] \<or> quoted then Inr (token, quoted, State_space, rest)
         else read_token_loop ws State_space token quoted esc rest)
      else if c \<in> set commenters then
        read_token_loop ws State_space token quoted esc (readline_rest rest)
      else if c \<in> set escape then read_token_loop ws (State_escape c) token quoted State_word rest
      else if c \<in> set wordchars then read_token_loop ws State_word [c] quoted esc rest
      else if c \<in> set quotes then read_token_loop ws (State_quote c) token quoted esc rest
      else read_token_loop ws State_word [c] quoted esc rest)"
| "read_token_loop ws (State_quote q) token quoted esc [] = Inl (ValueError ''No closing quotation'')"
| "read_token_loop ws (State_quote q) token quoted esc (c # rest) =
     (if c = q then read_token_loop ws State_word token True esc rest
      else if c \<in> set escape \<and> q \<in> set escapedquotes then
        read_token_loop ws (State_escape c) token True (State_quote q) rest
      else read_token_loop ws (State_quote q) (token @ [c]) True esc rest)"
| "read_token_loop ws (State_escape e) token quoted esc [] = Inl (ValueError ''No escaped character'')"
| "read_token_loop ws (State_escape e) token quoted esc (c # rest) =
     read_token_loop ws esc
       ((case esc of
           State_quote q \<Rightarrow> if q \<in> set quotes \<and> c \<noteq> e \<and> c \<noteq> q then token @ [e] else token
         | _ \<Rightarrow> token) @ [c])
       quoted esc rest"
| "read_token_loop ws State_word token quoted esc [] = Inr (token, quoted, State_None, [])"
| "read_token_loop ws State_word token quoted esc (c # rest) =
     (if c \<in> set ws then
        (if token \<noteq> [] \<or> quoted then Inr (token, quoted, State_space, rest)
         else read_token_loop ws State_space token quoted esc rest)
      else if c \<in> set commenters then
        (if token \<noteq> [] \<or> quoted then Inr (token, quoted, State_space, readline_rest rest)
         else read_token_loop ws State_space token quoted esc (readline_rest rest))
      else if c \<in> set quotes then read_token_loop ws (State_quote c) token quoted esc rest
      else if c \<in> set escape then read_token_loop ws (State_escape c) token quoted State_word rest
      else read_token_loop ws State_word (token @ [c]) quoted esc rest)"
  by pat_completeness auto
termination
  by (relation "measure (\<lambda>(ws, state, token, quoted, esc, input). length input)")
    (auto simp: length_readline_rest le_imp_less_Suc)

text \<open>
  \<^verbatim>\<open>shlex.read_token\<close>: the token, or \<open>None\<close> for the end of the input (an empty result that
  was not quoted), with the lexer's state and the unread input after the call.
\<close>

definition read_token :: "string \<Rightarrow> lex_state \<Rightarrow> string \<Rightarrow> error + (string option \<times> lex_state \<times> string)" where
  "read_token ws state input =
     (case read_token_loop ws state [] False State_space input of
        Inl e \<Rightarrow> Inl e
      | Inr (result, quoted, state', rest) \<Rightarrow>
          Inr (if \<not> quoted \<and> result = [] then None else Some result, state', rest))"

lemma read_token_loop_consumes:
  "read_token_loop ws state token quoted esc input = Inr (result, quoted', state', unread)
   \<Longrightarrow> length unread \<le> length input - 1"
proof (induction ws state token quoted esc input rule: read_token_loop.induct)
  case (1 ws token quoted esc input)
  then show ?case by auto
next
  case (2 ws token quoted esc)
  then show ?case by auto
next
  case (3 ws token quoted esc c rest)
  have rl: "length (readline_rest rest) \<le> length rest" by (rule length_readline_rest)
  consider (ws) "c \<in> set ws" "token \<noteq> [] \<or> quoted"
    | (ws') "c \<in> set ws" "\<not> (token \<noteq> [] \<or> quoted)"
    | (com) "c \<notin> set ws" "c \<in> set commenters"
    | (esc) "c \<notin> set ws" "c \<notin> set commenters" "c \<in> set escape"
    | (word) "c \<notin> set ws" "c \<notin> set commenters" "c \<notin> set escape" "c \<in> set wordchars"
    | (quo) "c \<notin> set ws" "c \<notin> set commenters" "c \<notin> set escape" "c \<notin> set wordchars" "c \<in> set quotes"
    | (other) "c \<notin> set ws" "c \<notin> set commenters" "c \<notin> set escape" "c \<notin> set wordchars" "c \<notin> set quotes"
    by argo
  then show ?case
  proof cases
    case ws
    with "3.prems" show ?thesis by auto
  next
    case ws'
    with "3.prems" "3.IH"(1) have "length unread \<le> length rest - 1" by simp
    then show ?thesis by simp
  next
    case com
    with "3.prems" "3.IH"(2) have "length unread \<le> length (readline_rest rest) - 1" by simp
    with rl show ?thesis by simp
  next
    case esc
    with "3.prems" "3.IH"(3) have "length unread \<le> length rest - 1" by simp
    then show ?thesis by simp
  next
    case word
    with "3.prems" "3.IH"(4) have "length unread \<le> length rest - 1" by simp
    then show ?thesis by simp
  next
    case quo
    with "3.prems" "3.IH"(5) have "length unread \<le> length rest - 1" by simp
    then show ?thesis by simp
  next
    case other
    with "3.prems" "3.IH"(6) have "length unread \<le> length rest - 1" by simp
    then show ?thesis by simp
  qed
next
  case (4 ws q token quoted esc)
  then show ?case by simp
next
  case (5 ws q token quoted esc c rest)
  consider (close) "c = q"
    | (esc) "c \<noteq> q" "c \<in> set escape \<and> q \<in> set escapedquotes"
    | (other) "c \<noteq> q" "\<not> (c \<in> set escape \<and> q \<in> set escapedquotes)"
    by argo
  then have "length unread \<le> length rest - 1"
  proof cases
    case close
    with "5.prems" "5.IH"(1) show ?thesis by simp
  next
    case esc
    with "5.prems" "5.IH"(2) show ?thesis by simp
  next
    case other
    with "5.prems" "5.IH"(3) show ?thesis by simp
  qed
  then show ?case by simp
next
  case (6 ws e token quoted esc)
  then show ?case by simp
next
  case (7 ws e token quoted esc c rest)
  from "7.prems" "7.IH" have "length unread \<le> length rest - 1" by simp
  then show ?case by simp
next
  case (8 ws token quoted esc)
  then show ?case by auto
next
  case (9 ws token quoted esc c rest)
  have rl: "length (readline_rest rest) \<le> length rest" by (rule length_readline_rest)
  consider (ws) "c \<in> set ws" "token \<noteq> [] \<or> quoted"
    | (ws') "c \<in> set ws" "\<not> (token \<noteq> [] \<or> quoted)"
    | (com) "c \<notin> set ws" "c \<in> set commenters" "token \<noteq> [] \<or> quoted"
    | (com') "c \<notin> set ws" "c \<in> set commenters" "\<not> (token \<noteq> [] \<or> quoted)"
    | (quo) "c \<notin> set ws" "c \<notin> set commenters" "c \<in> set quotes"
    | (esc) "c \<notin> set ws" "c \<notin> set commenters" "c \<notin> set quotes" "c \<in> set escape"
    | (other) "c \<notin> set ws" "c \<notin> set commenters" "c \<notin> set quotes" "c \<notin> set escape"
    by argo
  then show ?case
  proof cases
    case ws
    with "9.prems" show ?thesis by auto
  next
    case ws'
    with "9.prems" "9.IH"(1) have "length unread \<le> length rest - 1" by simp
    then show ?thesis by simp
  next
    case com
    with "9.prems" rl show ?thesis by auto
  next
    case com'
    with "9.prems" "9.IH"(2) have "length unread \<le> length (readline_rest rest) - 1" by simp
    with rl show ?thesis by simp
  next
    case quo
    with "9.prems" "9.IH"(3) have "length unread \<le> length rest - 1" by simp
    then show ?thesis by simp
  next
    case esc
    with "9.prems" "9.IH"(4) have "length unread \<le> length rest - 1" by simp
    then show ?thesis by simp
  next
    case other
    with "9.prems" "9.IH"(5) have "length unread \<le> length rest - 1" by simp
    then show ?thesis by simp
  qed
qed

lemma read_token_loop_eof:
  "read_token_loop ws state [] False esc [] = Inr (result, quoted', state', unread)
   \<Longrightarrow> result = [] \<and> \<not> quoted'"
  by (cases state) auto

lemma read_token_consumes:
  assumes a: "read_token ws state input = Inr (Some tok, state', unread)"
  shows "length unread < length input"
proof (cases "read_token_loop ws state [] False State_space input")
  case (Inl e)
  with a show ?thesis by (simp add: read_token_def)
next
  case (Inr r)
  obtain result quoted st un where r: "r = (result, quoted, st, un)"
    by (cases r) auto
  from a Inr r have eq: "st = state'" "un = unread" and nz: "\<not> (\<not> quoted \<and> result = [])"
    by (simp_all add: read_token_def split: if_splits)
  from Inr r eq have l: "read_token_loop ws state [] False State_space input = Inr (result, quoted, state', unread)"
    by simp
  have "input \<noteq> []"
  proof
    assume "input = []"
    with l read_token_loop_eof[of ws state State_space result quoted state' unread] nz
    show False by simp
  qed
  with read_token_loop_consumes[OF l] show ?thesis
    by (cases input) simp_all
qed

section \<open>Csv\<close>

text \<open>
  The \<^verbatim>\<open>Csv\<close> helper: \<^verbatim>\<open>cast\<close> for each item, the delimiter characters, the characters
  stripped from each item, and \<^verbatim>\<open>post_process\<close>, which receives the items (it is applied
  here to the list of all of them, which is what \<^verbatim>\<open>list\<close> and \<^verbatim>\<open>tuple\<close> make of the
  generator).
\<close>

record ('a, 'b) Csv =
  csv_cast :: "string \<Rightarrow> error + 'a"
  csv_delimiter :: string
  csv_strip :: string
  csv_post_process :: "'a list \<Rightarrow> 'b"

text \<open>\<^verbatim>\<open>string.whitespace\<close>.\<close>

definition string_whitespace :: string where
  "string_whitespace = [CHR 0x20, CHR 0x09, CHR 0x0A, CHR 0x0D, CHR 0x0B, CHR 0x0C]"

text \<open>\<^verbatim>\<open>Csv()\<close>: the defaults of the constructor.\<close>

definition Csv_default :: "(string, string list) Csv" where
  "Csv_default =
     \<lparr>csv_cast = Inr, csv_delimiter = '','', csv_strip = string_whitespace,
      csv_post_process = (\<lambda>items. items)\<rparr>"

text \<open>
  The generator \<^verbatim>\<open>transform(s) for s in splitter\<close>, consumed to its end: a token is
  read, stripped and cast before the next one is read.
\<close>

function Csv_items :: "('a, 'b) Csv \<Rightarrow> lex_state \<Rightarrow> string \<Rightarrow> error + 'a list" where
  "Csv_items self state input =
     (case read_token (csv_delimiter self) state input of
        Inl e \<Rightarrow> Inl e
      | Inr (None, state', rest) \<Rightarrow> Inr []
      | Inr (Some s, state', rest) \<Rightarrow>
          (case csv_cast self (strip_chars (csv_strip self) s) of
             Inl e \<Rightarrow> Inl e
           | Inr x \<Rightarrow>
               (case Csv_items self state' rest of
                  Inl e \<Rightarrow> Inl e
                | Inr xs \<Rightarrow> Inr (x # xs))))"
  by pat_completeness auto
termination
proof (relation "measure (\<lambda>(self, state, input). length input)", goal_cases)
  case 1
  show ?case by simp
next
  case (2 self state input b x y x2 st unread)
  then have "read_token (csv_delimiter self) state input = Inr (Some x2, st, unread)"
    by simp
  then have "length unread < length input" by (rule read_token_consumes)
  with 2 show ?case by auto
qed

definition Csv_call :: "('a, 'b) Csv \<Rightarrow> string \<Rightarrow> error + 'b" where
  "Csv_call self v = map_sum id (csv_post_process self) (Csv_items self State_space v)"

section \<open>Reading the specification: case-insensitive tokens\<close>

text \<open>
  The specification's "case-insensitive \<^verbatim>\<open>y/yes/t/true/on/1\<close>", stated without the code's
  \<^verbatim>\<open>lower()\<close>: two strings are the same ignoring case when they have the same length and
  agree position by position up to the case of a letter.
\<close>

definition uppercase :: string where "uppercase = ''ABCDEFGHIJKLMNOPQRSTUVWXYZ''"
definition lowercase :: string where "lowercase = ''abcdefghijklmnopqrstuvwxyz''"

definition same_letter :: "char \<Rightarrow> char \<Rightarrow> bool" where
  "same_letter a b = (a = b \<or> (a, b) \<in> set (zip uppercase lowercase) \<or> (b, a) \<in> set (zip uppercase lowercase))"

definition same_ignoring_case :: "string \<Rightarrow> string \<Rightarrow> bool" where
  "same_ignoring_case s t = list_all2 same_letter s t"

definition truthy_tokens :: "string list" where
  "truthy_tokens = [''y'', ''yes'', ''t'', ''true'', ''on'', ''1'']"
definition falsy_tokens :: "string list" where
  "falsy_tokens = [''n'', ''no'', ''f'', ''false'', ''off'', ''0'']"

text \<open>A process used in the examples: two environment variables, no files.\<close>

definition example_world :: world where
  "example_world =
     \<lparr>environ = [''DEBUG'' \<mapsto> ''Yes'', ''HOME'' \<mapsto> ''/root''], files = Map.empty, cwd = ''/'',
      RepositoryIni_SECTION = ''settings''\<rparr>"

text \<open>
  A cast for the examples, as a caller may pass \<^verbatim>\<open>cast=len\<close>: the length of a string, and
  \<^verbatim>\<open>TypeError\<close> on a value that has no length.
\<close>

definition text_length :: "pyval \<Rightarrow> error + pyval" where
  "text_length v =
     (case v of
        PStr s \<Rightarrow> Inr (PInt (int (length s)))
      | _ \<Rightarrow> Inl (TypeError ''object has no len()''))"

section \<open>Examples and the specification's notions for the files on disk\<close>

text \<open>
  A \<^verbatim>\<open>.env\<close> file of three lines: a value in double quotes that itself holds single
  quotes, a line with no \<^verbatim>\<open>=\<close>, and a plain assignment.
\<close>

definition quoted_example :: string where
  "quoted_example = [double_quote, single_quote] @ ''hello'' @ [single_quote] @ '' and ''
      @ [single_quote] @ ''bye'' @ [single_quote, double_quote]"

definition env_file_world :: world where
  "env_file_world =
     \<lparr>environ = Map.empty,
      files = [''/app/.env'' \<mapsto> ''MSG='' @ quoted_example @ [CHR 0x0A] @ ''export PATH'' @ [CHR 0x0A] @ ''PORT = 8000'' @ [CHR 0x0A]],
      cwd = ''/app'', RepositoryIni_SECTION = ''settings''\<rparr>"




text \<open>
  For the examples, a stand-in for the standard library's reader that knows the empty
  file only, and three processes: a project with a \<^verbatim>\<open>.env\<close> two levels above the code,
  one whose only \<^verbatim>\<open>.env\<close> is in the root directory, and one with no file at all.
\<close>

definition empty_reader :: "string \<Rightarrow> error + ConfigParser" where
  "empty_reader text =
     (if text = [] then Inr \<lparr>cp_defaults = [], cp_sections = []\<rparr> else Inl (ParsingError text))"



definition bare_world :: world where
  "bare_world =
     \<lparr>environ = [''HOME'' \<mapsto> ''/root''], files = Map.empty, cwd = ''/srv/app'',
      RepositoryIni_SECTION = ''settings''\<rparr>"

section \<open>The round trip of the specification, and example configurations\<close>

text \<open>
  \<^verbatim>\<open>cfg[key] = value\<close> followed by \<^verbatim>\<open>cfg.get(key)\<close>, and the same with \<^verbatim>\<open>del cfg[key]\<close> in
  between, on a \<^verbatim>\<open>WritableConfig\<close>: what the last call returns or raises (or the exception
  of an earlier step).
\<close>

definition set_then_get :: "world \<Rightarrow> Config \<Rightarrow> string \<Rightarrow> pyval \<Rightarrow> error + pyval" where
  "set_then_get w self key v =
     (case WritableConfig_setitem w self key v of
        Inl e \<Rightarrow> Inl e
      | Inr (self1, w1) \<Rightarrow> WritableConfig_get w1 self1 key None None)"

definition set_delete_then_get :: "world \<Rightarrow> Config \<Rightarrow> string \<Rightarrow> pyval \<Rightarrow> error + pyval" where
  "set_delete_then_get w self key v =
     (case WritableConfig_setitem w self key v of
        Inl e \<Rightarrow> Inl e
      | Inr (self1, w1) \<Rightarrow>
          (case WritableConfig_delitem w1 self1 key of
             Inl e \<Rightarrow> Inl e
           | Inr (self2, w2) \<Rightarrow> WritableConfig_get w2 self2 key None None))"

text \<open>
  Repository objects of the examples: the one the constructor leaves for a file that did
  not exist, one whose file has a \<^verbatim>\<open>[DEFAULT]\<close> section with \<^verbatim>\<open>port = 80\<close>, and two for a file
  with \<^verbatim>\<open>port = 80\<close> in a \<^verbatim>\<open>[settings]\<close> section (read-only, and writable with the section
  the constructor added).
\<close>

definition fresh_parser :: ConfigParser where
  "fresh_parser = \<lparr>cp_defaults = [], cp_sections = [(''default'', [])]\<rparr>"

definition fresh_config :: Config where
  "fresh_config = \<lparr>repository = WritableRepositoryIni ''default'' ''/srv/app/conf.ini'' fresh_parser\<rparr>"

definition defaults_config :: Config where
  "defaults_config =
     \<lparr>repository = WritableRepositoryIni ''default'' ''/srv/app/conf.ini''
        \<lparr>cp_defaults = [(''port'', ''80'')], cp_sections = [(''default'', [])]\<rparr>\<rparr>"

definition settings_parser :: ConfigParser where
  "settings_parser = \<lparr>cp_defaults = [], cp_sections = [(''settings'', [(''port'', ''80'')])]\<rparr>"

definition settings_default_config :: Config where
  "settings_default_config =
     \<lparr>repository = WritableRepositoryIni ''default'' ''/srv/app/conf.ini''
        \<lparr>cp_defaults = [], cp_sections = [(''settings'', [(''port'', ''80'')]), (''default'', [])]\<rparr>\<rparr>"

section \<open>Lower case and the boolean tokens\<close>

lemma distinct_uppercase: "distinct uppercase" by (simp add: uppercase_def)

lemma lower_char_map_of: "lower_char c = (case map_of (zip uppercase lowercase) c of Some d \<Rightarrow> d | None \<Rightarrow> c)"
  by (simp only: lower_char_def uppercase_def lowercase_def)

lemma lower_char_upper: "(a, b) \<in> set (zip uppercase lowercase) \<Longrightarrow> lower_char a = b"
proof -
  assume "(a, b) \<in> set (zip uppercase lowercase)"
  moreover have "distinct (map fst (zip uppercase lowercase))"
    by (simp add: uppercase_def lowercase_def)
  ultimately have "map_of (zip uppercase lowercase) a = Some b" by (rule map_of_is_SomeI[rotated])
  then show ?thesis by (simp add: lower_char_map_of)
qed


lemma lower_char_not_upper: "a \<notin> set uppercase \<Longrightarrow> lower_char a = a"
proof -
  assume "a \<notin> set uppercase"
  then have "a \<notin> fst ` set (zip uppercase lowercase)"
    by (auto dest: set_zip_leftD)
  then have "map_of (zip uppercase lowercase) a = None"
    by (simp add: map_of_eq_None_iff)
  then show ?thesis by (simp add: lower_char_map_of)
qed

lemma lower_char_upper': "a \<in> set uppercase \<Longrightarrow> (a, lower_char a) \<in> set (zip uppercase lowercase)"
proof -
  assume "a \<in> set uppercase"
  moreover have "length uppercase = length lowercase" by (simp add: uppercase_def lowercase_def)
  ultimately have "a \<in> fst ` set (zip uppercase lowercase)"
    by (metis map_fst_zip set_map)
  then obtain b where b: "(a, b) \<in> set (zip uppercase lowercase)" by auto
  with lower_char_upper[OF b] show ?thesis by simp
qed

lemma same_letter_lower: "b \<notin> set uppercase \<Longrightarrow> same_letter a b \<longleftrightarrow> lower_char a = b"
proof
  assume nb: "b \<notin> set uppercase" and "same_letter a b"
  then consider "a = b" | "(a, b) \<in> set (zip uppercase lowercase)"
    unfolding same_letter_def by (auto dest: set_zip_leftD)
  then show "lower_char a = b"
  proof cases
    case 1
    with nb show ?thesis by (simp add: lower_char_not_upper)
  next
    case 2
    then show ?thesis by (rule lower_char_upper)
  qed
next
  assume nb: "b \<notin> set uppercase" and l: "lower_char a = b"
  show "same_letter a b"
  proof (cases "a \<in> set uppercase")
    case True
    from lower_char_upper'[OF True] l show ?thesis by (simp add: same_letter_def)
  next
    case False
    with l show ?thesis by (simp add: lower_char_not_upper same_letter_def)
  qed
qed

lemma same_ignoring_case_lower:
  "\<forall>b \<in> set t. b \<notin> set uppercase \<Longrightarrow> same_ignoring_case s t \<longleftrightarrow> lower s = t"
proof (induction t arbitrary: s)
  case Nil
  then show ?case by (simp add: same_ignoring_case_def lower_def)
next
  case (Cons b t)
  show ?case
  proof (cases s)
    case Nil
    then show ?thesis by (simp add: same_ignoring_case_def lower_def)
  next
    case (Cons a s')
    from Cons.prems have "b \<notin> set uppercase" by simp
    then have "same_letter a b \<longleftrightarrow> lower_char a = b" by (rule same_letter_lower)
    moreover from Cons.prems have "same_ignoring_case s' t \<longleftrightarrow> lower s' = t"
      by (intro Cons.IH) simp
    ultimately show ?thesis using Cons
      by (simp add: same_ignoring_case_def lower_def)
  qed
qed

lemma tokens_not_upper:
  "t \<in> set truthy_tokens \<union> set falsy_tokens \<Longrightarrow> \<forall>b \<in> set t. b \<notin> set uppercase"
  by (auto simp: truthy_tokens_def falsy_tokens_def uppercase_def)

lemma list_ex_truthy: "list_ex (same_ignoring_case s) truthy_tokens \<longleftrightarrow> lower s \<in> set truthy_tokens"
proof -
  have "\<And>t. t \<in> set truthy_tokens \<Longrightarrow> same_ignoring_case s t \<longleftrightarrow> lower s = t"
    by (rule same_ignoring_case_lower, rule tokens_not_upper) simp
  then show ?thesis unfolding list_ex_iff by auto
qed

lemma list_ex_falsy: "list_ex (same_ignoring_case s) falsy_tokens \<longleftrightarrow> lower s \<in> set falsy_tokens"
proof -
  have "\<And>t. t \<in> set falsy_tokens \<Longrightarrow> same_ignoring_case s t \<longleftrightarrow> lower s = t"
    by (rule same_ignoring_case_lower, rule tokens_not_upper) simp
  then show ?thesis unfolding list_ex_iff by auto
qed

lemma strtobool_cases:
  "strtobool s =
     (if lower s \<in> set truthy_tokens then Inr 1
      else if lower s \<in> set falsy_tokens then Inr 0
      else Inl (ValueError (lower s)))"
  unfolding strtobool_def truthy_tokens_def falsy_tokens_def Let_def by (rule refl)

lemma cast_boolean_cases:
  "cast_boolean v =
     (if str v = [] then Inr (PBool False)
      else if list_ex (same_ignoring_case (str v)) truthy_tokens then Inr (PBool True)
      else if list_ex (same_ignoring_case (str v)) falsy_tokens then Inr (PBool False)
      else Inl (ValueError (lower (str v))))"
  unfolding list_ex_truthy list_ex_falsy cast_boolean_def Let_def strtobool_cases
  by simp

lemma Config_get_cast:
  "Config_get w self option dv cast =
     (case Config_get w self option dv None of Inl e \<Rightarrow> Inl e | Inr v \<Rightarrow> apply_cast cast v)"
  by (simp add: Config_get_def apply_cast_def cast_do_nothing_def split: option.splits sum.splits)

section \<open>Config.get\<close>

text \<open>
  C1. An option that is in the process environment: \<^verbatim>\<open>Config.get\<close>, and the call
  shorthand, return the cast applied to the environment's string, whatever the
  repository holds and whatever default is passed: with no cast the environment's
  string itself, with a callable \<open>f\<close> as cast what \<open>f\<close> returns or raises on that string,
  and with \<^verbatim>\<open>cast=bool\<close> the boolean cast of that string.
\<close>

theorem Config_get_environment_wins:
  assumes "environ w option = Some v"
  shows "Config_get w self option dv cast = apply_cast cast (PStr v)
       \<and> Config_call w self option dv cast = apply_cast cast (PStr v)
       \<and> Config_get w self option dv None = Inr (PStr v)
       \<and> Config_get w self option dv (Some (Callable f)) = f (PStr v)
       \<and> Config_get w self option dv (Some Bool_type) = cast_boolean (PStr v)
       \<and> Config_call w self option dv None = Inr (PStr v)
       \<and> Config_call w self option dv (Some (Callable f)) = f (PStr v)
       \<and> Config_call w self option dv (Some Bool_type) = cast_boolean (PStr v)"
  using assms by (simp add: Config_get_def Config_call_def apply_cast_def cast_do_nothing_def)

theorem Config_get_environment_wins_witness:
  "environ example_world ''HOME'' = Some ''/root''
   \<and> Config_get example_world \<lparr>repository = RepositoryEnv [''HOME'' \<mapsto> ''/srv'']\<rparr> ''HOME''
         (Some (PStr ''/tmp'')) None = Inr (PStr ''/root'')
   \<and> Config_get example_world \<lparr>repository = RepositoryEnv [''HOME'' \<mapsto> ''/srv'']\<rparr> ''HOME''
         (Some (PStr ''/tmp'')) (Some (Callable text_length)) = Inr (PInt 5)
   \<and> Config_call example_world \<lparr>repository = RepositoryEnv [''DEBUG'' \<mapsto> ''no'']\<rparr> ''DEBUG''
         (Some (PBool False)) (Some Bool_type) = Inr (PBool True)
   \<and> Config_get example_world \<lparr>repository = RepositoryEnv [''HOME'' \<mapsto> ''yes'']\<rparr> ''HOME''
         (Some (PBool True)) (Some Bool_type) = Inl (ValueError ''/root'')"
proof -
  have b: "cast_boolean (PStr ''Yes'') = Inr (PBool True)"
    "cast_boolean (PStr ''/root'') = Inl (ValueError ''/root'')"
    by (simp_all add: cast_boolean_def strtobool_def lower_def lower_char_def)
  have l: "text_length (PStr ''/root'') = Inr (PInt 5)"
    by (simp add: text_length_def)
  have e: "environ example_world ''HOME'' = Some ''/root''" "environ example_world ''DEBUG'' = Some ''Yes''"
    by (simp_all add: example_world_def)
  from Config_get_environment_wins[OF e(1), where self = "\<lparr>repository = RepositoryEnv [''HOME'' \<mapsto> ''/srv'']\<rparr>"
      and dv = "Some (PStr ''/tmp'')" and f = text_length and cast = None] l
  have one: "Config_get example_world \<lparr>repository = RepositoryEnv [''HOME'' \<mapsto> ''/srv'']\<rparr> ''HOME''
         (Some (PStr ''/tmp'')) None = Inr (PStr ''/root'')"
    "Config_get example_world \<lparr>repository = RepositoryEnv [''HOME'' \<mapsto> ''/srv'']\<rparr> ''HOME''
         (Some (PStr ''/tmp'')) (Some (Callable text_length)) = Inr (PInt 5)"
    by (simp_all add: apply_cast_def cast_do_nothing_def)
  from Config_get_environment_wins[OF e(2), where self = "\<lparr>repository = RepositoryEnv [''DEBUG'' \<mapsto> ''no'']\<rparr>"
      and dv = "Some (PBool False)" and cast = None] b(1)
  have two: "Config_call example_world \<lparr>repository = RepositoryEnv [''DEBUG'' \<mapsto> ''no'']\<rparr> ''DEBUG''
         (Some (PBool False)) (Some Bool_type) = Inr (PBool True)"
    by (simp add: apply_cast_def cast_do_nothing_def)
  from Config_get_environment_wins[OF e(1), where self = "\<lparr>repository = RepositoryEnv [''HOME'' \<mapsto> ''yes'']\<rparr>"
      and dv = "Some (PBool True)" and cast = None] b(2)
  have three: "Config_get example_world \<lparr>repository = RepositoryEnv [''HOME'' \<mapsto> ''yes'']\<rparr> ''HOME''
         (Some (PBool True)) (Some Bool_type) = Inl (ValueError ''/root'')"
    by (simp add: apply_cast_def cast_do_nothing_def)
  from e(1) one two three show ?thesis by simp
qed

text \<open>
  C2. An option that is neither in the process environment nor in the repository: with
  no default, \<^verbatim>\<open>Config.get\<close> raises \<^verbatim>\<open>UndefinedValueError\<close> with a message that starts
  with the option's name, whatever the cast; with a default, whatever its value, it
  returns the cast applied to that default: the default itself with no cast, what a
  callable \<open>f\<close> returns or raises on it, and its boolean cast with \<^verbatim>\<open>cast=bool\<close>.
\<close>

theorem Config_get_missing:
  assumes "environ w option = None"
    and "\<not> repository_contains w (repository self) option"
  shows "Config_get w self option None cast
           = Inl (UndefinedValueError (option @ '' not found. Declare it as envvar or define a default value.''))
       \<and> Config_get w self option (Some d) cast = apply_cast cast d
       \<and> Config_get w self option (Some d) None = Inr d
       \<and> Config_get w self option (Some d) (Some (Callable f)) = f d
       \<and> Config_get w self option (Some d) (Some Bool_type) = cast_boolean d"
  using assms
  by (simp add: Config_get_def undefined_message_def apply_cast_def cast_do_nothing_def)

theorem Config_get_missing_witness:
  "environ example_world ''PORT'' = None
   \<and> \<not> repository_contains example_world (repository \<lparr>repository = RepositoryEmpty\<rparr>) ''PORT''
   \<and> Config_get example_world \<lparr>repository = RepositoryEmpty\<rparr> ''PORT'' None None
       = Inl (UndefinedValueError ''PORT not found. Declare it as envvar or define a default value.'')
   \<and> Config_get example_world \<lparr>repository = RepositoryEmpty\<rparr> ''PORT'' None (Some (Callable text_length))
       = Inl (UndefinedValueError ''PORT not found. Declare it as envvar or define a default value.'')
   \<and> Config_get example_world \<lparr>repository = RepositoryEmpty\<rparr> ''PORT'' (Some PNone) None = Inr PNone
   \<and> Config_get example_world \<lparr>repository = RepositoryEmpty\<rparr> ''PORT'' (Some (PBool False)) None = Inr (PBool False)
   \<and> Config_get example_world \<lparr>repository = RepositoryEmpty\<rparr> ''PORT'' (Some (PStr [])) None = Inr (PStr [])
   \<and> Config_get example_world \<lparr>repository = RepositoryEmpty\<rparr> ''PORT'' (Some (PStr ''8000''))
         (Some (Callable text_length)) = Inr (PInt 4)
   \<and> Config_get example_world \<lparr>repository = RepositoryEmpty\<rparr> ''PORT'' (Some PNone)
         (Some (Callable text_length)) = Inl (TypeError ''object has no len()'')
   \<and> Config_get example_world \<lparr>repository = RepositoryEmpty\<rparr> ''PORT'' (Some (PBool False))
         (Some Bool_type) = Inr (PBool False)
   \<and> Config_get example_world \<lparr>repository = RepositoryEmpty\<rparr> ''PORT'' (Some (PStr []))
         (Some Bool_type) = Inr (PBool False)
   \<and> Config_get example_world \<lparr>repository = RepositoryEmpty\<rparr> ''PORT'' (Some (PInt 1))
         (Some Bool_type) = Inr (PBool True)
   \<and> Config_get example_world \<lparr>repository = RepositoryEmpty\<rparr> ''PORT'' (Some PNone)
         (Some Bool_type) = Inl (ValueError ''none'')"
proof -
  have e: "environ example_world ''PORT'' = None"
    and r: "\<not> repository_contains example_world (repository \<lparr>repository = RepositoryEmpty\<rparr>) ''PORT''"
    by (simp_all add: example_world_def)
  have b: "cast_boolean (PBool False) = Inr (PBool False)" "cast_boolean (PStr []) = Inr (PBool False)"
    "cast_boolean (PInt 1) = Inr (PBool True)" "cast_boolean PNone = Inl (ValueError ''none'')"
    by (simp_all add: cast_boolean_def strtobool_def lower_def lower_char_def digit_char_def)
  have l: "text_length (PStr ''8000'') = Inr (PInt 4)"
    "text_length PNone = Inl (TypeError ''object has no len()'')"
    by (simp_all add: text_length_def)
  note m = Config_get_missing[OF e r, where cast = None]
  from m[where d = PNone] Config_get_missing[OF e r, where cast = "Some (Callable text_length)" and d = PNone]
  have none: "Config_get example_world \<lparr>repository = RepositoryEmpty\<rparr> ''PORT'' None None
       = Inl (UndefinedValueError ''PORT not found. Declare it as envvar or define a default value.'')"
    "Config_get example_world \<lparr>repository = RepositoryEmpty\<rparr> ''PORT'' None (Some (Callable text_length))
       = Inl (UndefinedValueError ''PORT not found. Declare it as envvar or define a default value.'')"
    by (simp_all add: apply_cast_def cast_do_nothing_def)
  from m[where d = PNone and f = text_length] l b
  have dnone: "Config_get example_world \<lparr>repository = RepositoryEmpty\<rparr> ''PORT'' (Some PNone) None = Inr PNone"
    "Config_get example_world \<lparr>repository = RepositoryEmpty\<rparr> ''PORT'' (Some PNone)
         (Some (Callable text_length)) = Inl (TypeError ''object has no len()'')"
    "Config_get example_world \<lparr>repository = RepositoryEmpty\<rparr> ''PORT'' (Some PNone)
         (Some Bool_type) = Inl (ValueError ''none'')"
    by (simp_all add: apply_cast_def cast_do_nothing_def)
  from m[where d = "PBool False"] b
  have dfalse: "Config_get example_world \<lparr>repository = RepositoryEmpty\<rparr> ''PORT'' (Some (PBool False)) None = Inr (PBool False)"
    "Config_get example_world \<lparr>repository = RepositoryEmpty\<rparr> ''PORT'' (Some (PBool False))
         (Some Bool_type) = Inr (PBool False)"
    by (simp_all add: apply_cast_def cast_do_nothing_def)
  from m[where d = "PStr []"] b
  have dempty: "Config_get example_world \<lparr>repository = RepositoryEmpty\<rparr> ''PORT'' (Some (PStr [])) None = Inr (PStr [])"
    "Config_get example_world \<lparr>repository = RepositoryEmpty\<rparr> ''PORT'' (Some (PStr []))
         (Some Bool_type) = Inr (PBool False)"
    by (simp_all add: apply_cast_def cast_do_nothing_def)
  from m[where d = "PStr ''8000''" and f = text_length] l
  have dtext: "Config_get example_world \<lparr>repository = RepositoryEmpty\<rparr> ''PORT'' (Some (PStr ''8000''))
         (Some (Callable text_length)) = Inr (PInt 4)"
    by (simp add: apply_cast_def cast_do_nothing_def)
  from m[where d = "PInt 1"] b
  have dint: "Config_get example_world \<lparr>repository = RepositoryEmpty\<rparr> ''PORT'' (Some (PInt 1))
         (Some Bool_type) = Inr (PBool True)"
    by (simp add: apply_cast_def cast_do_nothing_def)
  from e r none dnone dfalse dempty dtext dint show ?thesis by simp
qed

text \<open>
  C4. With \<^verbatim>\<open>cast=bool\<close> the resolved value (what \<^verbatim>\<open>get\<close> returns with no cast) is turned
  into its string form; the empty string gives \<^verbatim>\<open>False\<close>, a string that is one of
  \<^verbatim>\<open>y yes t true on 1\<close> ignoring case gives \<^verbatim>\<open>True\<close>, one of \<^verbatim>\<open>n no f false off 0\<close>
  ignoring case gives \<^verbatim>\<open>False\<close>, and any other string makes \<^verbatim>\<open>get\<close> raise \<^verbatim>\<open>ValueError\<close>.
\<close>

theorem Config_get_boolean_cast:
  "Config_get w self option dv (Some Bool_type) =
     (case Config_get w self option dv None of
        Inl e \<Rightarrow> Inl e
      | Inr v \<Rightarrow>
          (if str v = [] then Inr (PBool False)
           else if list_ex (same_ignoring_case (str v)) truthy_tokens then Inr (PBool True)
           else if list_ex (same_ignoring_case (str v)) falsy_tokens then Inr (PBool False)
           else Inl (ValueError (lower (str v)))))"
proof -
  have "apply_cast (Some Bool_type) = cast_boolean"
    by (rule ext) (simp add: apply_cast_def)
  then show ?thesis
    using Config_get_cast[of w self option dv "Some Bool_type"]
    by (simp add: cast_boolean_cases cong: sum.case_cong)
qed

theorem Config_get_boolean_cast_witness:
  "Config_get example_world \<lparr>repository = RepositoryEmpty\<rparr> ''DEBUG'' None (Some Bool_type) = Inr (PBool True)
   \<and> Config_get example_world \<lparr>repository = RepositoryEmpty\<rparr> ''VERBOSE'' (Some (PStr [])) (Some Bool_type) = Inr (PBool False)
   \<and> Config_get example_world \<lparr>repository = RepositoryEmpty\<rparr> ''VERBOSE'' (Some (PBool False)) (Some Bool_type) = Inr (PBool False)
   \<and> Config_get example_world \<lparr>repository = RepositoryEmpty\<rparr> ''VERBOSE'' (Some PNone) (Some Bool_type) = Inl (ValueError ''none'')"
  using Config_get_boolean_cast[where w = example_world and option = "''DEBUG''"
      and self = "\<lparr>repository = RepositoryEmpty\<rparr>" and dv = None]
    Config_get_boolean_cast[where w = example_world and option = "''VERBOSE''"
      and self = "\<lparr>repository = RepositoryEmpty\<rparr>" and dv = "Some (PStr [])"]
    Config_get_boolean_cast[where w = example_world and option = "''VERBOSE''"
      and self = "\<lparr>repository = RepositoryEmpty\<rparr>" and dv = "Some (PBool False)"]
    Config_get_boolean_cast[where w = example_world and option = "''VERBOSE''"
      and self = "\<lparr>repository = RepositoryEmpty\<rparr>" and dv = "Some PNone"]
  by (simp add: example_world_def Config_get_def apply_cast_def cast_do_nothing_def
      same_ignoring_case_def same_letter_def uppercase_def lowercase_def truthy_tokens_def
      falsy_tokens_def lower_def lower_char_def)

section \<open>WritableConfig.get\<close>

lemma WritableConfig_init_writable:
  "WritableConfig_init read_file w args = Inr (self, w')
   \<Longrightarrow> \<exists>SECTION source parser. repository self = WritableRepositoryIni SECTION source parser"
proof (cases args)
  case (From_repository r)
  assume "WritableConfig_init read_file w args = Inr (self, w')"
  with From_repository show ?thesis by (cases r) auto
next
  case (From_arguments src sec cr)
  assume "WritableConfig_init read_file w args = Inr (self, w')"
  with From_arguments show ?thesis
    by (auto simp: WritableRepositoryIni_init_def Let_def split: sum.splits if_splits)
qed

text \<open>
  C3. \<^verbatim>\<open>WritableConfig.get\<close> on its \<^verbatim>\<open>WritableRepositoryIni\<close>: the result is the same in any
  two processes, so in particular for any two contents of the environment; it is a
  function of the repository object, the option, the default and the cast alone.
\<close>

theorem WritableConfig_get_ignores_environment:
  "WritableConfig_get w1 \<lparr>repository = WritableRepositoryIni SECTION source parser\<rparr> option dv cast
     = WritableConfig_get w2 \<lparr>repository = WritableRepositoryIni SECTION source parser\<rparr> option dv cast"
  by (simp add: WritableConfig_get_def)


section \<open>RepositoryEnv: the lines of a .env file\<close>

lemma set_strip_chars: "set (strip_chars chars s) \<subseteq> set s"
proof -
  have "set (dropWhile (\<lambda>c. c \<in> set chars) (rev (dropWhile (\<lambda>c. c \<in> set chars) s)))
        \<subseteq> set (rev (dropWhile (\<lambda>c. c \<in> set chars) s))"
    by (auto dest: set_dropWhileD)
  also have "\<dots> \<subseteq> set s" by (auto dest: set_dropWhileD)
  finally show ?thesis by (simp add: strip_chars_def)
qed

lemma RepositoryEnv_line_no_equals:
  "CHR ''='' \<notin> set line \<Longrightarrow> RepositoryEnv_line data line = data"
proof -
  assume "CHR ''='' \<notin> set line"
  with set_strip_chars[of isspace_chars line] have "CHR ''='' \<notin> set (strip line)"
    by (auto simp: strip_def)
  then show ?thesis by (simp add: RepositoryEnv_line_def)
qed

lemma RepositoryEnv_lines_skip:
  "CHR ''='' \<notin> set line \<Longrightarrow> RepositoryEnv_lines (before @ line # after) = RepositoryEnv_lines (before @ after)"
  by (simp add: RepositoryEnv_lines_def RepositoryEnv_line_no_equals)

lemma readlines_example:
  "readlines (''MSG='' @ quoted_example @ [CHR 0x0A] @ ''export PATH'' @ [CHR 0x0A] @ ''PORT = 8000'' @ [CHR 0x0A])
     = [''MSG='' @ quoted_example @ [CHR 0x0A]] @ (''export PATH'' @ [CHR 0x0A]) # [''PORT = 8000'' @ [CHR 0x0A]]"
  by (simp add: readlines_def quoted_example_def single_quote_def double_quote_def)

text \<open>
  C10. A line of the file that is not blank, is no comment and holds no \<^verbatim>\<open>=\<close> is skipped:
  the constructor returns, and the dictionary it builds is the one of the file without
  that line.
\<close>

theorem RepositoryEnv_skips_line_without_equals:
  assumes "files w source = Some text"
    and "readlines text = before @ line # after"
    and "strip line \<noteq> []" and "take 1 (strip line) \<noteq> ''#''"
    and "CHR ''='' \<notin> set line"
  shows "RepositoryEnv_init w source = Inr (RepositoryEnv (RepositoryEnv_lines (before @ after)))"
  using assms by (simp add: RepositoryEnv_init_def RepositoryEnv_lines_skip)

theorem RepositoryEnv_skips_line_without_equals_witness:
  "RepositoryEnv_init env_file_world ''/app/.env''
     = Inr (RepositoryEnv (RepositoryEnv_lines [''MSG='' @ quoted_example @ [CHR 0x0A], ''PORT = 8000'' @ [CHR 0x0A]]))
   \<and> RepositoryEnv_lines [''MSG='' @ quoted_example @ [CHR 0x0A], ''PORT = 8000'' @ [CHR 0x0A]] ''export PATH'' = None
   \<and> RepositoryEnv_lines [''MSG='' @ quoted_example @ [CHR 0x0A], ''PORT = 8000'' @ [CHR 0x0A]] ''PORT'' = Some ''8000''"
proof -
  have "RepositoryEnv_init env_file_world ''/app/.env''
     = Inr (RepositoryEnv (RepositoryEnv_lines ([''MSG='' @ quoted_example @ [CHR 0x0A]] @ [''PORT = 8000'' @ [CHR 0x0A]])))"
  proof (rule RepositoryEnv_skips_line_without_equals)
    show "files env_file_world ''/app/.env''
        = Some (''MSG='' @ quoted_example @ [CHR 0x0A] @ ''export PATH'' @ [CHR 0x0A] @ ''PORT = 8000'' @ [CHR 0x0A])"
      by (simp add: env_file_world_def)
    show "readlines (''MSG='' @ quoted_example @ [CHR 0x0A] @ ''export PATH'' @ [CHR 0x0A] @ ''PORT = 8000'' @ [CHR 0x0A])
       = [''MSG='' @ quoted_example @ [CHR 0x0A]] @ (''export PATH'' @ [CHR 0x0A]) # [''PORT = 8000'' @ [CHR 0x0A]]"
      by (rule readlines_example)
    show "strip (''export PATH'' @ [CHR 0x0A]) \<noteq> []"
      by (simp add: strip_def strip_chars_def isspace_chars_def)
    show "take 1 (strip (''export PATH'' @ [CHR 0x0A])) \<noteq> ''#''"
      by (simp add: strip_def strip_chars_def isspace_chars_def)
    show "CHR ''='' \<notin> set (''export PATH'' @ [CHR 0x0A])" by simp
  qed
  moreover have "RepositoryEnv_lines [''MSG='' @ quoted_example @ [CHR 0x0A], ''PORT = 8000'' @ [CHR 0x0A]] ''export PATH'' = None"
    by (simp add: RepositoryEnv_lines_def RepositoryEnv_line_def strip_def strip_chars_def isspace_chars_def
        quoted_example_def single_quote_def double_quote_def Let_def)
  moreover have "RepositoryEnv_lines [''MSG='' @ quoted_example @ [CHR 0x0A], ''PORT = 8000'' @ [CHR 0x0A]] ''PORT'' = Some ''8000''"
    by (simp add: RepositoryEnv_lines_def RepositoryEnv_line_def strip_def strip_chars_def isspace_chars_def
        quoted_example_def single_quote_def double_quote_def Let_def)
  ultimately show ?thesis by simp
qed

text \<open>
  C5. The value \<^verbatim>\<open>"'hello' and 'bye'"\<close> begins and ends with a double quote. The text
  between that pair of quotes is \<^verbatim>\<open>'hello' and 'bye'\<close>; the constructor stores
  \<^verbatim>\<open>hello' and 'bye\<close>, because \<^verbatim>\<open>v.strip('\'"')\<close> also removes the single quotes that
  belong to the value.
\<close>

theorem RepositoryEnv_strips_inner_quotes:
  "butlast (tl quoted_example) = [single_quote] @ ''hello'' @ [single_quote] @ '' and '' @ [single_quote] @ ''bye'' @ [single_quote]
   \<and> map_sum id (\<lambda>r. repository_getitem env_file_world r ''MSG'') (RepositoryEnv_init env_file_world ''/app/.env'')
       = Inr (Inr (PStr (''hello'' @ [single_quote] @ '' and '' @ [single_quote] @ ''bye'')))"
  by (simp add: RepositoryEnv_init_def env_file_world_def readlines_def
        RepositoryEnv_lines_def RepositoryEnv_line_def strip_def strip_chars_def isspace_chars_def
        quoted_example_def single_quote_def double_quote_def Let_def)

section \<open>AutoConfig: the search for a configuration file\<close>















section \<open>The writable repository\<close>

lemma set_remove_percent_pairs: "set (remove_percent_pairs s) \<subseteq> set s"
  by (induction s rule: remove_percent_pairs.induct) auto

lemma keycre_match_set: "keycre_match s = Some (name, r) \<Longrightarrow> set r \<subseteq> set s"
proof -
  assume "keycre_match s = Some (name, r)"
  then have "r = drop 2 (dropWhile (\<lambda>c. c \<noteq> CHR '')'') (drop 2 s))"
    by (auto simp: keycre_match_def Let_def split: if_splits)
  moreover have "set (drop 2 (dropWhile (\<lambda>c. c \<noteq> CHR '')'') (drop 2 s)))
      \<subseteq> set (dropWhile (\<lambda>c. c \<noteq> CHR '')'') (drop 2 s))"
    by (rule set_drop_subset)
  moreover have "set (dropWhile (\<lambda>c. c \<noteq> CHR '')'') (drop 2 s)) \<subseteq> set (drop 2 s)"
    by (auto dest: set_dropWhileD)
  moreover have "set (drop 2 s) \<subseteq> set s" by (rule set_drop_subset)
  ultimately show ?thesis by blast
qed

lemma set_keycre_sub: "set (keycre_sub s) \<subseteq> set s"
proof (induction s rule: keycre_sub.induct)
  case 1
  then show ?case by simp
next
  case (2 c s)
  show ?case
  proof (cases "keycre_match (c # s)")
    case None
    with 2 show ?thesis by auto
  next
    case (Some nr)
    obtain name r where nr: "nr = (name, r)" by (cases nr)
    from Some nr have m: "keycre_match (c # s) = Some (name, r)" by simp
    from "2.IH" m have "set (keycre_sub r) \<subseteq> set r" by simp
    with keycre_match_set[OF m] m show ?thesis by auto
  qed
qed

lemma before_set_plain: "CHR ''%'' \<notin> set v \<Longrightarrow> before_set v = Inr v"
  using set_keycre_sub[of "remove_percent_pairs v"] set_remove_percent_pairs[of v]
  by (auto simp: before_set_def Let_def)

lemma before_get_plain: "CHR ''%'' \<notin> set v \<Longrightarrow> before_get m section option v = Inr v"
  by (simp add: before_get_def MAX_INTERPOLATION_DEPTH_def)

lemma section_exists:
  "SECTION \<in> set (sections parser) \<Longrightarrow> \<exists>d. map_of (cp_sections parser) SECTION = Some d"
proof -
  assume "SECTION \<in> set (sections parser)"
  then obtain d where "(SECTION, d) \<in> set (cp_sections parser)"
    by (auto simp: sections_def)
  then show ?thesis by (rule weak_map_of_SomeI)
qed

lemma ConfigParser_set_named:
  assumes "SECTION \<noteq> []" "SECTION \<noteq> default_section"
    and "map_of (cp_sections parser) SECTION = Some d"
    and "CHR ''%'' \<notin> set v"
  shows "ConfigParser_set parser SECTION key v
     = Inr (parser\<lparr>cp_sections := AList.update SECTION (AList.update (optionxform key) v d) (cp_sections parser)\<rparr>)"
  using assms by (simp add: ConfigParser_set_def before_set_plain)

lemma has_option_named:
  assumes "SECTION \<noteq> []" "SECTION \<noteq> default_section"
    and "map_of (cp_sections parser) SECTION = Some d"
  shows "has_option parser SECTION key
     = (map_of d (optionxform key) \<noteq> None \<or> map_of (cp_defaults parser) (optionxform key) \<noteq> None)"
  using assms by (simp add: has_option_def)

lemma ConfigParser_get_named:
  assumes "map_of (cp_sections parser) SECTION = Some d"
    and "map_of d (optionxform key) = Some v"
    and "CHR ''%'' \<notin> set v"
  shows "ConfigParser_get parser SECTION key = Inr v"
  using assms by (simp add: ConfigParser_get_def unify_values_def before_get_plain)

lemma remove_option_named:
  assumes "SECTION \<noteq> []" "SECTION \<noteq> default_section"
    and "map_of (cp_sections parser) SECTION = Some d"
  shows "remove_option parser SECTION key
     = Inr (parser\<lparr>cp_sections := AList.update SECTION (AList.delete (optionxform key) d) (cp_sections parser)\<rparr>)"
  using assms by (simp add: remove_option_def)

lemma set_then_get_named:
  assumes "repository self = WritableRepositoryIni SECTION source parser"
    and "SECTION \<noteq> []" "SECTION \<noteq> default_section"
    and "map_of (cp_sections parser) SECTION = Some d"
    and "CHR ''%'' \<notin> set (str v)"
  shows "set_then_get w self key v = Inr (PStr (str v))"
proof -
  let ?d' = "AList.update (optionxform key) (str v) d"
  let ?p' = "parser\<lparr>cp_sections := AList.update SECTION ?d' (cp_sections parser)\<rparr>"
  have s: "ConfigParser_set parser SECTION key (str v) = Inr ?p'"
    using assms(2-5) by (rule ConfigParser_set_named)
  have sec: "map_of (cp_sections ?p') SECTION = Some ?d'"
    by (simp add: update_conv')
  have val: "map_of ?d' (optionxform key) = Some (str v)"
    by (simp add: update_conv')
  have h: "has_option ?p' SECTION key"
    using has_option_named[OF assms(2,3) sec] val by simp
  have g: "ConfigParser_get ?p' SECTION key = Inr (str v)"
    using sec val assms(5) by (rule ConfigParser_get_named)
  show ?thesis
    using h g
    by (simp add: set_then_get_def WritableConfig_setitem_def WritableConfig_get_def assms(1) s
        apply_cast_def cast_do_nothing_def)
qed

lemma set_delete_then_get_named:
  assumes "repository self = WritableRepositoryIni SECTION source parser"
    and "SECTION \<noteq> []" "SECTION \<noteq> default_section"
    and "map_of (cp_sections parser) SECTION = Some d"
    and "CHR ''%'' \<notin> set (str v)"
    and "map_of (cp_defaults parser) (optionxform key) = None"
  shows "set_delete_then_get w self key v = Inl (UndefinedValueError (undefined_message key))"
proof -
  let ?d' = "AList.update (optionxform key) (str v) d"
  let ?p' = "parser\<lparr>cp_sections := AList.update SECTION ?d' (cp_sections parser)\<rparr>"
  let ?d'' = "AList.delete (optionxform key) ?d'"
  let ?p'' = "?p'\<lparr>cp_sections := AList.update SECTION ?d'' (cp_sections ?p')\<rparr>"
  have s: "ConfigParser_set parser SECTION key (str v) = Inr ?p'"
    using assms(2-5) by (rule ConfigParser_set_named)
  have sec: "map_of (cp_sections ?p') SECTION = Some ?d'"
    by (simp add: update_conv')
  have r: "remove_option ?p' SECTION key = Inr ?p''"
    using assms(2,3) sec by (rule remove_option_named)
  have sec2: "map_of (cp_sections ?p'') SECTION = Some ?d''"
    by (simp add: update_conv')
  have gone: "map_of ?d'' (optionxform key) = None"
    by (simp add: delete_conv')
  have dflt: "map_of (cp_defaults ?p'') (optionxform key) = None"
    using assms(6) by simp
  have h: "\<not> has_option ?p'' SECTION key"
    using has_option_named[OF assms(2,3) sec2, of key] gone dflt by simp
  show ?thesis
    using h
    by (simp add: set_delete_then_get_def WritableConfig_setitem_def WritableConfig_delitem_def
        WritableConfig_get_def assms(1) s r)
qed

lemma lower_simps: "lower ''RATE'' = ''rate''" "lower ''PORT'' = ''port''"
  by (simp_all add: lower_def lower_char_def)

lemma WritableRepositoryIni_init_default_section:
  "WritableRepositoryIni_init read_file w source None create_section = Inr (r, w1)
   \<Longrightarrow> \<exists>parser1. r = WritableRepositoryIni ''default'' source parser1"
  by (auto simp: WritableRepositoryIni_init_def Let_def split: sum.splits if_splits)

lemma setitem_default_section:
  assumes "repository_setitem w2 (WritableRepositoryIni ''default'' source parser1) key v = Inr (r2, w3)"
  shows "\<exists>parser2. r2 = WritableRepositoryIni ''default'' source parser2
           \<and> (\<exists>d. map_of (cp_sections parser2) ''default'' = Some d \<and> map_of d (optionxform key) = Some (str v))
           \<and> (\<forall>s. s \<noteq> ''default'' \<longrightarrow> map_of (cp_sections parser2) s = map_of (cp_sections parser1) s)
           \<and> cp_defaults parser2 = cp_defaults parser1
           \<and> files w3 source = Some (ConfigParser_write parser2)"
proof -
  from assms obtain parser2 where
    s: "ConfigParser_set parser1 ''default'' key (str v) = Inr parser2"
    and r2: "r2 = WritableRepositoryIni ''default'' source parser2"
    and w3: "w3 = save w2 source parser2"
    by (auto split: sum.splits)
  from s obtain v' where b: "(if str v \<noteq> [] then before_set (str v) else Inr (str v)) = Inr v'"
    by (auto simp: ConfigParser_set_def split: sum.splits)
  have v': "v' = str v"
    using b by (auto simp: before_set_def Let_def split: if_splits)
  from s b obtain d where d: "map_of (cp_sections parser1) ''default'' = Some d"
    and p2: "parser2 = parser1\<lparr>cp_sections :=
               AList.update ''default'' (AList.update (optionxform key) v' d) (cp_sections parser1)\<rparr>"
    by (auto simp: ConfigParser_set_def default_section_def split: option.splits)
  have "map_of (cp_sections parser2) ''default'' = Some (AList.update (optionxform key) (str v) d)"
    by (simp add: p2 v' update_conv')
  moreover have "map_of (AList.update (optionxform key) (str v) d) (optionxform key) = Some (str v)"
    by (simp add: update_conv')
  moreover have "\<forall>s. s \<noteq> ''default'' \<longrightarrow> map_of (cp_sections parser2) s = map_of (cp_sections parser1) s"
    by (simp add: p2 update_conv')
  moreover have "cp_defaults parser2 = cp_defaults parser1" by (simp add: p2)
  moreover have "files w3 source = Some (ConfigParser_write parser2)" by (simp add: w3 save_def)
  ultimately show ?thesis using r2 by blast
qed

lemma fresh_init:
  "WritableConfig_init empty_reader bare_world (From_arguments ''/srv/app/conf.ini'' None None)
     = Inr (fresh_config,
            save (bare_world\<lparr>files := (files bare_world)(''/srv/app/conf.ini'' \<mapsto> [])\<rparr>)
              ''/srv/app/conf.ini'' fresh_parser)"
  by (simp add: WritableRepositoryIni_init_def RepositoryIni_init_def empty_reader_def bare_world_def
      sections_def add_section_def default_section_def fresh_config_def fresh_parser_def Let_def)

text \<open>
  C8, as amended. On a \<^verbatim>\<open>WritableConfig\<close> whose section is a named section of the parser
  (as the constructor with \<^verbatim>\<open>create_section\<close> leaves it), for every key and every value
  whose string form holds no \<^verbatim>\<open>%\<close>: setting the key and getting it returns the string
  form of the value; deleting it then makes \<^verbatim>\<open>get\<close> without a default raise
  \<^verbatim>\<open>UndefinedValueError\<close>, when the \<^verbatim>\<open>DEFAULT\<close> section does not define the key.
\<close>

theorem WritableConfig_round_trip:
  assumes "repository self = WritableRepositoryIni SECTION source parser"
    and "SECTION \<noteq> []" and "SECTION \<noteq> ''DEFAULT''"
    and "SECTION \<in> set (sections parser)"
    and "CHR ''%'' \<notin> set (str v)"
  shows "set_then_get w self key v = Inr (PStr (str v))
       \<and> (map_of (cp_defaults parser) (optionxform key) = None
            \<longrightarrow> set_delete_then_get w self key v
                  = Inl (UndefinedValueError (key @ '' not found. Declare it as envvar or define a default value.'')))"
proof -
  from assms(4) obtain d where d: "map_of (cp_sections parser) SECTION = Some d"
    using section_exists by blast
  from assms(3) have nd: "SECTION \<noteq> default_section" by (simp add: default_section_def)
  show ?thesis
    using set_then_get_named[OF assms(1,2) nd d assms(5)]
      set_delete_then_get_named[OF assms(1,2) nd d assms(5)]
    by (simp add: undefined_message_def)
qed

theorem WritableConfig_round_trip_witness:
  "set_then_get bare_world fresh_config ''PORT'' (PInt 8000) = Inr (PStr ''8000'')
   \<and> set_delete_then_get bare_world fresh_config ''PORT'' (PInt 8000)
       = Inl (UndefinedValueError ''PORT not found. Declare it as envvar or define a default value.'')"
proof -
  have r: "repository fresh_config = WritableRepositoryIni ''default'' ''/srv/app/conf.ini'' fresh_parser"
    by (simp add: fresh_config_def)
  have s: "''default'' \<in> set (sections fresh_parser)"
    by (simp add: sections_def fresh_parser_def)
  have v: "str (PInt 8000) = ''8000''"
    by (simp add: digit_char_def)
  have d: "map_of (cp_defaults fresh_parser) (optionxform ''PORT'') = None"
    by (simp add: fresh_parser_def)
  from WritableConfig_round_trip[OF r _ _ s, where v = "PInt 8000" and key = "''PORT''" and w = bare_world] v d
  show ?thesis by simp
qed

text \<open>
  C8 as stated fails on values with a percent sign, which \<^verbatim>\<open>ConfigParser\<close> interpolates:
  \<^verbatim>\<open>50%%\<close> is read back as \<^verbatim>\<open>50%\<close>, and \<^verbatim>\<open>50%\<close> is refused by \<^verbatim>\<open>set\<close>. It also fails after the
  deletion when the \<^verbatim>\<open>DEFAULT\<close> section defines the key: \<^verbatim>\<open>get\<close> then returns that value.
\<close>

theorem WritableConfig_round_trip_counterexample:
  "set_then_get bare_world fresh_config ''RATE'' (PStr ''50%%'') = Inr (PStr ''50%'')
   \<and> set_then_get bare_world fresh_config ''RATE'' (PStr ''50%'') = Inl (ValueError ''50%'')
   \<and> set_delete_then_get bare_world defaults_config ''PORT'' (PInt 8000) = Inr (PStr ''80'')"
proof (intro conjI)
  show "set_then_get bare_world fresh_config ''RATE'' (PStr ''50%%'') = Inr (PStr ''50%'')"
    by (simp add: set_then_get_def set_delete_then_get_def WritableConfig_setitem_def WritableConfig_delitem_def
      WritableConfig_get_def fresh_config_def defaults_config_def
      fresh_parser_def ConfigParser_set_def before_set_def keycre_match_def default_section_def
      optionxform_def lower_simps has_option_def ConfigParser_get_def unify_values_def before_get_def
      remove_option_def digit_char_def
      MAX_INTERPOLATION_DEPTH_def apply_cast_def cast_do_nothing_def Let_def)
  show "set_then_get bare_world fresh_config ''RATE'' (PStr ''50%'') = Inl (ValueError ''50%'')"
    by (simp add: set_then_get_def set_delete_then_get_def WritableConfig_setitem_def WritableConfig_delitem_def
      WritableConfig_get_def fresh_config_def defaults_config_def
      fresh_parser_def ConfigParser_set_def before_set_def keycre_match_def default_section_def
      optionxform_def lower_simps has_option_def ConfigParser_get_def unify_values_def before_get_def
      remove_option_def digit_char_def
      MAX_INTERPOLATION_DEPTH_def apply_cast_def cast_do_nothing_def Let_def)
  show "set_delete_then_get bare_world defaults_config ''PORT'' (PInt 8000) = Inr (PStr ''80'')"
    by (simp add: set_then_get_def set_delete_then_get_def WritableConfig_setitem_def WritableConfig_delitem_def
      WritableConfig_get_def fresh_config_def defaults_config_def
      fresh_parser_def ConfigParser_set_def before_set_def keycre_match_def default_section_def
      optionxform_def lower_simps has_option_def ConfigParser_get_def unify_values_def before_get_def
      remove_option_def digit_char_def
      MAX_INTERPOLATION_DEPTH_def apply_cast_def cast_do_nothing_def Let_def)
qed

text \<open>
  C6, as amended. A \<^verbatim>\<open>RepositoryIni\<close> looks keys up in the section \<^verbatim>\<open>settings\<close> as long as
  the class attribute has the value the class body gives it. A \<^verbatim>\<open>WritableConfig\<close> built
  from constructor arguments without a section name looks keys up in, and writes keys
  to, the section \<^verbatim>\<open>default\<close>: a successful assignment puts the string form of the value
  under the key in that section, leaves every other section and the \<^verbatim>\<open>DEFAULT\<close> options
  as they were, and rewrites the file from the parser.
\<close>

theorem ini_repository_sections:
  "(RepositoryIni_SECTION w = RepositoryIni_SECTION_declared \<longrightarrow>
       repository_contains w (RepositoryIni parser) key
         = (environ w key \<noteq> None \<or> has_option parser ''settings'' key)
     \<and> repository_getitem w (RepositoryIni parser) key
         = map_sum id PStr (ConfigParser_get parser ''settings'' key))
   \<and> (WritableConfig_init read_file w (From_arguments source None create_section) = Inr (self, w1) \<longrightarrow>
       (\<exists>parser1. repository self = WritableRepositoryIni ''default'' source parser1
          \<and> WritableConfig_contains w2 self key = has_option parser1 ''default'' key
          \<and> repository_getitem w2 (repository self) key
              = map_sum id PStr (ConfigParser_get parser1 ''default'' key)
          \<and> (\<forall>v self2 w3. WritableConfig_setitem w2 self key v = Inr (self2, w3) \<longrightarrow>
               (\<exists>parser2. repository self2 = WritableRepositoryIni ''default'' source parser2
                   \<and> (\<exists>d. map_of (cp_sections parser2) ''default'' = Some d
                           \<and> map_of d (optionxform key) = Some (str v))
                   \<and> (\<forall>s. s \<noteq> ''default'' \<longrightarrow> map_of (cp_sections parser2) s = map_of (cp_sections parser1) s)
                   \<and> cp_defaults parser2 = cp_defaults parser1
                   \<and> files w3 source = Some (ConfigParser_write parser2)))))"
proof (intro conjI impI)
  assume "RepositoryIni_SECTION w = RepositoryIni_SECTION_declared"
  then show "repository_contains w (RepositoryIni parser) key
         = (environ w key \<noteq> None \<or> has_option parser ''settings'' key)"
    by (simp add: RepositoryIni_SECTION_declared_def)
next
  assume "RepositoryIni_SECTION w = RepositoryIni_SECTION_declared"
  then show "repository_getitem w (RepositoryIni parser) key
         = map_sum id PStr (ConfigParser_get parser ''settings'' key)"
    by (simp add: RepositoryIni_SECTION_declared_def)
next
  assume init: "WritableConfig_init read_file w (From_arguments source None create_section) = Inr (self, w1)"
  then obtain r where r: "WritableRepositoryIni_init read_file w source None create_section = Inr (r, w1)"
    and self: "self = \<lparr>repository = r\<rparr>"
    by (auto split: sum.splits)
  from WritableRepositoryIni_init_default_section[OF r] obtain parser1
    where p1: "r = WritableRepositoryIni ''default'' source parser1" by blast
  have st: "\<forall>v self2 w3. WritableConfig_setitem w2 self key v = Inr (self2, w3) \<longrightarrow>
               (\<exists>parser2. repository self2 = WritableRepositoryIni ''default'' source parser2
                   \<and> (\<exists>d. map_of (cp_sections parser2) ''default'' = Some d
                           \<and> map_of d (optionxform key) = Some (str v))
                   \<and> (\<forall>s. s \<noteq> ''default'' \<longrightarrow> map_of (cp_sections parser2) s = map_of (cp_sections parser1) s)
                   \<and> cp_defaults parser2 = cp_defaults parser1
                   \<and> files w3 source = Some (ConfigParser_write parser2))"
  proof (intro allI impI)
    fix v self2 w3
    assume "WritableConfig_setitem w2 self key v = Inr (self2, w3)"
    then obtain r2 where
      "repository_setitem w2 (WritableRepositoryIni ''default'' source parser1) key v = Inr (r2, w3)"
      and "repository self2 = r2"
      unfolding WritableConfig_setitem_def self p1
      by (auto split: sum.splits)
    with setitem_default_section[of w2 source parser1 key v r2 w3]
    show "\<exists>parser2. repository self2 = WritableRepositoryIni ''default'' source parser2
                   \<and> (\<exists>d. map_of (cp_sections parser2) ''default'' = Some d
                           \<and> map_of d (optionxform key) = Some (str v))
                   \<and> (\<forall>s. s \<noteq> ''default'' \<longrightarrow> map_of (cp_sections parser2) s = map_of (cp_sections parser1) s)
                   \<and> cp_defaults parser2 = cp_defaults parser1
                   \<and> files w3 source = Some (ConfigParser_write parser2)"
      by simp
  qed
  show "\<exists>parser1. repository self = WritableRepositoryIni ''default'' source parser1
          \<and> WritableConfig_contains w2 self key = has_option parser1 ''default'' key
          \<and> repository_getitem w2 (repository self) key
              = map_sum id PStr (ConfigParser_get parser1 ''default'' key)
          \<and> (\<forall>v self2 w3. WritableConfig_setitem w2 self key v = Inr (self2, w3) \<longrightarrow>
               (\<exists>parser2. repository self2 = WritableRepositoryIni ''default'' source parser2
                   \<and> (\<exists>d. map_of (cp_sections parser2) ''default'' = Some d
                           \<and> map_of d (optionxform key) = Some (str v))
                   \<and> (\<forall>s. s \<noteq> ''default'' \<longrightarrow> map_of (cp_sections parser2) s = map_of (cp_sections parser1) s)
                   \<and> cp_defaults parser2 = cp_defaults parser1
                   \<and> files w3 source = Some (ConfigParser_write parser2)))"
    using st by (intro exI[of _ parser1]) (simp add: self p1 WritableConfig_contains_def)
qed

theorem ini_repository_sections_witness:
  "repository_getitem bare_world (RepositoryIni settings_parser) ''PORT'' = Inr (PStr ''80'')
   \<and> (\<exists>parser1. repository fresh_config = WritableRepositoryIni ''default'' ''/srv/app/conf.ini'' parser1
         \<and> WritableConfig_contains bare_world fresh_config ''PORT'' = has_option parser1 ''default'' ''PORT'')"
proof -
  note sec = ini_repository_sections[where w = bare_world and parser = settings_parser and key = "''PORT''"
      and read_file = empty_reader and source = "''/srv/app/conf.ini''" and create_section = None
      and self = fresh_config and ?w2.0 = bare_world
      and ?w1.0 = "save (bare_world\<lparr>files := (files bare_world)(''/srv/app/conf.ini'' \<mapsto> [])\<rparr>)
              ''/srv/app/conf.ini'' fresh_parser"]
  have declared: "RepositoryIni_SECTION bare_world = RepositoryIni_SECTION_declared"
    by (simp add: bare_world_def RepositoryIni_SECTION_declared_def)
  have g: "map_sum id PStr (ConfigParser_get settings_parser ''settings'' ''PORT'') = Inr (PStr ''80'')"
    by (simp add: ConfigParser_get_def unify_values_def settings_parser_def optionxform_def
        lower_def lower_char_def before_get_def MAX_INTERPOLATION_DEPTH_def)
  from sec declared g have one: "repository_getitem bare_world (RepositoryIni settings_parser) ''PORT'' = Inr (PStr ''80'')"
    by simp
  from sec fresh_init
  have two: "\<exists>parser1. repository fresh_config = WritableRepositoryIni ''default'' ''/srv/app/conf.ini'' parser1
         \<and> WritableConfig_contains bare_world fresh_config ''PORT'' = has_option parser1 ''default'' ''PORT''"
    by blast
  from one two show ?thesis by simp
qed

text \<open>
  C6 as stated fails for the writable variant: built without a section name on a file
  that does not exist, it creates and writes \<^verbatim>\<open>[default]\<close>, and on a file whose \<^verbatim>\<open>port\<close> is
  in \<^verbatim>\<open>[settings]\<close> it does not find \<^verbatim>\<open>PORT\<close>.
\<close>

theorem ini_repository_sections_counterexample:
  "map_sum id (\<lambda>(c, w). (repository c, files w ''/srv/app/conf.ini''))
       (WritableConfig_init empty_reader bare_world (From_arguments ''/srv/app/conf.ini'' None None))
     = Inr (WritableRepositoryIni ''default'' ''/srv/app/conf.ini'' fresh_parser,
            Some (''[default]'' @ [CHR 0x0A, CHR 0x0A]))
   \<and> map_sum id (\<lambda>(c, w). files w ''/srv/app/conf.ini'')
       (WritableConfig_setitem bare_world fresh_config ''PORT'' (PInt 8000))
     = Inr (Some (''[default]'' @ [CHR 0x0A] @ ''port = 8000'' @ [CHR 0x0A, CHR 0x0A]))
   \<and> WritableConfig_get bare_world settings_default_config ''PORT'' None None
     = Inl (UndefinedValueError ''PORT not found. Declare it as envvar or define a default value.'')"
proof (intro conjI)
  show "map_sum id (\<lambda>(c, w). (repository c, files w ''/srv/app/conf.ini''))
       (WritableConfig_init empty_reader bare_world (From_arguments ''/srv/app/conf.ini'' None None))
     = Inr (WritableRepositoryIni ''default'' ''/srv/app/conf.ini'' fresh_parser,
            Some (''[default]'' @ [CHR 0x0A, CHR 0x0A]))"
    by (simp only: fresh_init)
      (simp add: fresh_config_def save_def ConfigParser_write_def write_section_def fresh_parser_def)
  show "map_sum id (\<lambda>(c, w). files w ''/srv/app/conf.ini'')
       (WritableConfig_setitem bare_world fresh_config ''PORT'' (PInt 8000))
     = Inr (Some (''[default]'' @ [CHR 0x0A] @ ''port = 8000'' @ [CHR 0x0A, CHR 0x0A]))"
    by (simp add: WritableConfig_setitem_def fresh_config_def fresh_parser_def ConfigParser_set_def
        before_set_def keycre_match_def default_section_def optionxform_def lower_simps digit_char_def
        save_def ConfigParser_write_def write_section_def Let_def)
  show "WritableConfig_get bare_world settings_default_config ''PORT'' None None
     = Inl (UndefinedValueError ''PORT not found. Declare it as envvar or define a default value.'')"
    by (simp add: WritableConfig_get_def settings_default_config_def has_option_def default_section_def
        optionxform_def lower_simps undefined_message_def)
qed

section \<open>Csv: quoted items\<close>

lemma quote_run:
  "q \<notin> set body \<Longrightarrow> q \<notin> set escapedquotes \<or> (\<forall>c \<in> set body. c \<notin> set escape)
   \<Longrightarrow> read_token_loop ws (State_quote q) token quoted esc (body @ q # rest)
       = read_token_loop ws State_word (token @ body) True esc rest"
proof (induction body arbitrary: token quoted)
  case Nil
  then show ?case by simp
next
  case (Cons c body)
  from Cons.prems have c: "c \<noteq> q" "\<not> (c \<in> set escape \<and> q \<in> set escapedquotes)"
    by auto
  from Cons.prems have "q \<notin> set body" "q \<notin> set escapedquotes \<or> (\<forall>c \<in> set body. c \<notin> set escape)"
    by auto
  then have "read_token_loop ws (State_quote q) (token @ [c]) True esc (body @ q # rest)
       = read_token_loop ws State_word ((token @ [c]) @ body) True esc rest"
    by (rule Cons.IH)
  with c show ?case by auto
qed

lemma quoted_first_token:
  assumes "q \<in> set quotes" "q \<notin> set body"
    and "q \<notin> set escapedquotes \<or> (\<forall>c \<in> set body. c \<notin> set escape)"
  shows "read_token '','' State_space (q # body @ q # CHR '','' # rest) = Inr (Some body, State_space, rest)"
    and "read_token '','' State_space (q # body @ [q]) = Inr (Some body, State_None, [])"
proof -
  from assms(1) have q: "q \<notin> set '',''" "q \<notin> set commenters" "q \<notin> set escape" "q \<notin> set wordchars"
    by (auto simp: quotes_def single_quote_def double_quote_def commenters_def escape_def wordchars_def)
  have start: "\<And>input. read_token_loop '','' State_space [] False State_space (q # input)
      = read_token_loop '','' (State_quote q) [] False State_space input"
    using q assms(1) by simp
  show "read_token '','' State_space (q # body @ q # CHR '','' # rest) = Inr (Some body, State_space, rest)"
    unfolding read_token_def start quote_run[OF assms(2,3)] by simp
  show "read_token '','' State_space (q # body @ [q]) = Inr (Some body, State_None, [])"
    unfolding read_token_def start quote_run[OF assms(2,3)] by simp
qed

lemma Csv_items_eof: "Csv_items self State_None [] = Inr []"
  by (simp add: read_token_def)

lemma Csv_default_fields:
  "csv_delimiter Csv_default = '',''" "csv_strip Csv_default = string_whitespace"
  "csv_cast Csv_default = Inr" "csv_post_process Csv_default = (\<lambda>items. items)"
  by (simp_all add: Csv_default_def)

lemma example_items:
  "Csv_call Csv_default (''a, b, '' @ [single_quote] @ ''c,d'' @ [single_quote]) = Inr [''a'', ''b'', ''c,d'']"
  by (simp add: Csv_call_def Csv_default_fields read_token_def commenters_def escape_def wordchars_def
      quotes_def escapedquotes_def single_quote_def double_quote_def strip_chars_def string_whitespace_def)

text \<open>
  C9. \<^verbatim>\<open>Csv()\<close> maps \<^verbatim>\<open>a, b, 'c,d'\<close> to the list of \<^verbatim>\<open>a\<close>, \<^verbatim>\<open>b\<close> and \<^verbatim>\<open>c,d\<close>. In general an item
  in quotes is one token, whatever delimiters it holds: for a body without the quote
  character (and, in double quotes, without a backslash), the quoted body alone gives
  the one-item list of the stripped body, and followed by a delimiter it gives the
  stripped body in front of the items of the rest of the input.
\<close>

theorem Csv_quoted_delimiter_one_token:
  "Csv_call Csv_default (''a, b, '' @ [single_quote] @ ''c,d'' @ [single_quote]) = Inr [''a'', ''b'', ''c,d'']
   \<and> (q \<in> set quotes \<and> q \<notin> set body \<and> (q = double_quote \<longrightarrow> CHR 0x5C \<notin> set body) \<longrightarrow>
        Csv_call Csv_default (q # body @ [q]) = Inr [strip_chars string_whitespace body]
      \<and> Csv_items Csv_default State_space (q # body @ q # CHR '','' # rest)
          = map_sum id (\<lambda>items. strip_chars string_whitespace body # items)
              (Csv_items Csv_default State_space rest))"
proof (intro conjI impI)
  show "Csv_call Csv_default (''a, b, '' @ [single_quote] @ ''c,d'' @ [single_quote]) = Inr [''a'', ''b'', ''c,d'']"
    by (rule example_items)
next
  assume a: "q \<in> set quotes \<and> q \<notin> set body \<and> (q = double_quote \<longrightarrow> CHR 0x5C \<notin> set body)"
  then have e: "q \<notin> set escapedquotes \<or> (\<forall>c \<in> set body. c \<notin> set escape)"
    by (auto simp: escapedquotes_def escape_def)
  from a have q: "q \<in> set quotes" "q \<notin> set body" by simp_all
  have "Csv_items Csv_default State_space (q # body @ [q]) = Inr [strip_chars string_whitespace body]"
    by (subst Csv_items.simps)
       (simp add: Csv_default_fields quoted_first_token(2)[OF q e] Csv_items_eof del: Csv_items.simps)
  then show "Csv_call Csv_default (q # body @ [q]) = Inr [strip_chars string_whitespace body]"
    by (simp add: Csv_call_def Csv_default_fields)
next
  assume a: "q \<in> set quotes \<and> q \<notin> set body \<and> (q = double_quote \<longrightarrow> CHR 0x5C \<notin> set body)"
  then have e: "q \<notin> set escapedquotes \<or> (\<forall>c \<in> set body. c \<notin> set escape)"
    by (auto simp: escapedquotes_def escape_def)
  from a have q: "q \<in> set quotes" "q \<notin> set body" by simp_all
  show "Csv_items Csv_default State_space (q # body @ q # CHR '','' # rest)
          = map_sum id (\<lambda>items. strip_chars string_whitespace body # items)
              (Csv_items Csv_default State_space rest)"
    by (subst Csv_items.simps)
       (simp add: Csv_default_fields quoted_first_token(1)[OF q e] del: Csv_items.simps split: sum.splits)
qed

theorem Csv_quoted_delimiter_one_token_witness:
  "single_quote \<in> set quotes \<and> single_quote \<notin> set '' c,d ''
   \<and> Csv_call Csv_default (single_quote # '' c,d '' @ [single_quote]) = Inr [''c,d'']
   \<and> Csv_items Csv_default State_space (double_quote # ''x, y'' @ double_quote # CHR '','' # ''z'')
       = Inr [''x, y'', ''z'']"
proof -
  have q1: "single_quote \<in> set quotes \<and> single_quote \<notin> set '' c,d ''
        \<and> (single_quote = double_quote \<longrightarrow> CHR 0x5C \<notin> set '' c,d '')"
    by (simp add: quotes_def single_quote_def double_quote_def)
  have q2: "double_quote \<in> set quotes \<and> double_quote \<notin> set ''x, y''
        \<and> (double_quote = double_quote \<longrightarrow> CHR 0x5C \<notin> set ''x, y'')"
    by (simp add: quotes_def double_quote_def)
  have s: "strip_chars string_whitespace '' c,d '' = ''c,d''"
    "strip_chars string_whitespace ''x, y'' = ''x, y''"
    by (simp_all add: strip_chars_def string_whitespace_def)
  have z: "Csv_items Csv_default State_space ''z'' = Inr [''z'']"
    by (simp add: Csv_default_fields read_token_def commenters_def escape_def wordchars_def
      quotes_def escapedquotes_def single_quote_def double_quote_def strip_chars_def string_whitespace_def)
  from Csv_quoted_delimiter_one_token[where q = single_quote and body = "'' c,d ''" and rest = "[]"] q1 s
  have one: "Csv_call Csv_default (single_quote # '' c,d '' @ [single_quote]) = Inr [''c,d'']"
    by simp
  from Csv_quoted_delimiter_one_token[where q = double_quote and body = "''x, y''" and rest = "''z''"] q2 s z
  have two: "Csv_items Csv_default State_space (double_quote # ''x, y'' @ double_quote # CHR '','' # ''z'')
       = Inr [''x, y'', ''z'']"
    by (simp del: Csv_items.simps)
  from q1 one two show ?thesis by simp
qed

end
